theory Spec2Isabelle
  imports Complex_Main "HOL-Library.AList" "HOL-Library.Multiset"
begin

section \<open>SparrowTrack: the attendance handler\<close>

text \<open>
  A shallow embedding of \<^verbatim>\<open>Backend/attendance-handler.js\<close>: the class
  \<^verbatim>\<open>AttendanceHandler\<close> together with the two methods of \<^verbatim>\<open>DataManager\<close> it
  calls (\<^verbatim>\<open>getAttendanceRecords\<close>, \<^verbatim>\<open>setAttendanceRecords\<close>).

  Conventions of the embedding.
  \<^item> A JavaScript number is either finite or \<^verbatim>\<open>NaN\<close>. A finite number is the
    rational it denotes, and the numbers that occur are doubles: every subtraction,
    addition, multiplication and division of the handler is followed by the rounding
    of its exact result to a double, the function \<open>roundDouble\<close> of the runtime. No
    operation of the handler produces an infinity from finite arguments.
  \<^item> What the handler asks of the JavaScript runtime (the clock, the \<^verbatim>\<open>Date\<close>
    parser and formatter, the rounding of the arithmetic, whether
    \<^verbatim>\<open>localStorage.setItem\<close> succeeds) is a parameter of the model, the record \<open>env\<close>.
    Every theorem holds for every \<open>env\<close>.
  \<^item> Strings that are only compared and concatenated (e-mails, dates, times) are
    \<open>string\<close>s. The notes, which are trimmed, are the list of their UTF-16 code units.
  \<^item> An object read from the storage is a map from its own keys. Where the handler
    looks a user up in the object of all records, the members that every object
    inherits from \<^verbatim>\<open>Object.prototype\<close> are modelled as well (see \<open>punchIn\<close>).
  \<^item> The return objects \<^verbatim>\<open>{success, message, ...}\<close> are values of a sum type: the
    failures are the constructors of \<open>error\<close>, a success carries the payload fields.
\<close>

subsection \<open>Numbers and their rendering\<close>

datatype jsnum = Num rat | NaN

text \<open>The decimal digits of a natural number.\<close>

fun nat_digits :: "nat \<Rightarrow> string" where
  "nat_digits n =
     (if n < 10 then [''0123456789'' ! n]
      else nat_digits (n div 10) @ [''0123456789'' ! (n mod 10)])"

declare nat_digits.simps [simp del]

text \<open>\<^verbatim>\<open>Math.round\<close>: the nearest integer, a tie going towards \<open>+\<infinity>\<close>.\<close>

definition Math_round :: "rat \<Rightarrow> int" where
  "Math_round x = \<lfloor>x + 1 / 2\<rfloor>"

text \<open>Truthiness of a field that holds a string, \<^verbatim>\<open>null\<close> or nothing: only a non-empty
  string is truthy.\<close>

definition truthy :: "string option \<Rightarrow> bool" where
  "truthy v = (case v of None \<Rightarrow> False | Some s \<Rightarrow> s \<noteq> [])"

subsection \<open>The runtime environment\<close>

text \<open>
  \<^item> \<open>getCurrentDate\<close>, \<open>getCurrentTime\<close>: what the two methods of these names return
    during the call (\<^verbatim>\<open>YYYY-MM-DD\<close> and \<^verbatim>\<open>HH:MM:SS\<close> of the local clock; a date is
    digits and hyphens, and names no member that an object inherits);
  \<^item> \<open>toISOString\<close>: \<^verbatim>\<open>new Date().toISOString()\<close> of the call;
  \<^item> \<open>setItemOk\<close>: whether \<^verbatim>\<open>localStorage.setItem\<close> returns (otherwise it throws, and
    the storage keeps its old content);
  \<^item> \<open>roundDouble\<close>: the double nearest to a rational, as the runtime's arithmetic
    rounds (IEEE 754 binary64, to nearest, a tie to the even significand);
  \<^item> \<open>exponentString\<close>: \<^verbatim>\<open>Number.prototype.toString\<close> of an integer of magnitude
    \<open>10\<^sup>2\<^sup>1\<close> or more, which is in exponent notation;
  \<^item> \<open>Date_value\<close>: the time value in milliseconds of \<^verbatim>\<open>new Date(s)\<close>, \<open>None\<close> for
    an invalid date (whose time value is \<^verbatim>\<open>NaN\<close>);
  \<^item> \<open>getFormattedDate\<close>: the method of this name, a \<^verbatim>\<open>toLocaleDateString\<close>;
  \<^item> \<open>weekRange\<close>: for \<^verbatim>\<open>weekStartDate\<close>, the \<^verbatim>\<open>en-CA\<close> date strings of
    \<^verbatim>\<open>new Date(weekStartDate)\<close> and of that date moved on by six days;
  \<^item> \<open>monthRange\<close>: for a year and a month, the \<^verbatim>\<open>en-CA\<close> date strings of
    \<^verbatim>\<open>new Date(year, month - 1, 1)\<close> and \<^verbatim>\<open>new Date(year, month, 0)\<close>;
  \<^item> \<open>monthName\<close>: the long \<^verbatim>\<open>en-US\<close> name of the month;
  \<^item> \<open>lastDayOfMonth\<close>, \<open>getDay\<close>: the day of the month of
    \<^verbatim>\<open>new Date(year, month, 0)\<close>, and the day of the week (0 is Sunday) of a day of
    that month.
\<close>

record env =
  getCurrentDate :: string
  getCurrentTime :: string
  toISOString :: string
  setItemOk :: bool
  roundDouble :: "rat \<Rightarrow> rat"
  exponentString :: "int \<Rightarrow> string"
  Date_value :: "string \<Rightarrow> int option"
  getFormattedDate :: "string \<Rightarrow> string"
  weekRange :: "string \<Rightarrow> string \<times> string"
  monthRange :: "int \<Rightarrow> int \<Rightarrow> string \<times> string"
  monthName :: "int \<Rightarrow> int \<Rightarrow> string"
  lastDayOfMonth :: "int \<Rightarrow> int \<Rightarrow> nat"
  getDay :: "int \<Rightarrow> int \<Rightarrow> nat \<Rightarrow> nat"

text \<open>\<^verbatim>\<open>Number.prototype.toString\<close> of an integer: its decimal digits below \<open>10\<^sup>2\<^sup>1\<close>, with
  a minus sign when it is negative.\<close>

definition numberToString :: "env \<Rightarrow> int \<Rightarrow> string" where
  "numberToString env i =
     (if \<bar>i\<bar> < 10 ^ 21
      then (if i < 0 then ''-'' @ nat_digits (nat (- i)) else nat_digits (nat i))
      else exponentString env i)"

subsection \<open>TimeMath\<close>

text \<open>\<^verbatim>\<open>calculateHours\<close>: both times are read on 1 January 2000; the difference of two
  dates is the difference of their time values, \<^verbatim>\<open>NaN\<close> when either date is invalid, and
  \<^verbatim>\<open>Math.max(0, NaN)\<close> is \<^verbatim>\<open>NaN\<close>. The difference and the quotient are rounded.\<close>

definition calculateHours :: "env \<Rightarrow> string \<Rightarrow> string \<Rightarrow> jsnum" where
  "calculateHours env startTime endTime =
     (case (Date_value env (''2000-01-01 '' @ startTime),
            Date_value env (''2000-01-01 '' @ endTime)) of
        (Some start, Some end) \<Rightarrow>
          Num (max 0 (roundDouble env
                 (roundDouble env (of_int end - of_int start) / (1000 * 60 * 60))))
      | _ \<Rightarrow> NaN)"

text \<open>\<^verbatim>\<open>formatHours\<close>. \<^verbatim>\<open>Math.floor\<close> and \<^verbatim>\<open>Math.round\<close> are exact; the difference
  \<^verbatim>\<open>hours - wholeHours\<close> and its product with 60 are rounded to doubles. On \<^verbatim>\<open>NaN\<close>
  both \<^verbatim>\<open>wholeHours\<close> and \<^verbatim>\<open>minutes\<close> are \<^verbatim>\<open>NaN\<close>, neither is \<^verbatim>\<open>=== 0\<close>, and the last
  branch renders them.\<close>

definition formatHours :: "env \<Rightarrow> jsnum \<Rightarrow> string" where
  "formatHours env hours =
     (case hours of
        NaN \<Rightarrow> ''NaNh NaNm''
      | Num h \<Rightarrow>
          (let wholeHours = \<lfloor>h\<rfloor>;
               minutes = Math_round
                 (roundDouble env (roundDouble env (h - of_int wholeHours) * 60))
           in if wholeHours = 0 then numberToString env minutes @ '' minutes''
              else if minutes = 0 then
                numberToString env wholeHours @ '' ''
                  @ (if wholeHours = 1 then ''hour'' else ''hours'')
              else numberToString env wholeHours @ ''h ''
                     @ numberToString env minutes @ ''m''))"

text \<open>The rendering rules as the specification words them, for comparison with
  \<open>formatHours\<close>: whole hours, and the minutes of the fractional part (the double that
  the runtime computes for them) rounded to the nearest integer, a half going up.\<close>

definition round_half_up :: "rat \<Rightarrow> int" where
  "round_half_up x = (if 1 / 2 \<le> frac x then \<lfloor>x\<rfloor> + 1 else \<lfloor>x\<rfloor>)"


subsection \<open>The data model\<close>

text \<open>
  An attendance record, as \<^verbatim>\<open>punchIn\<close> and \<^verbatim>\<open>punchOut\<close> write it. The fields carry
  the prefix \<open>rec_\<close> (the names \<open>punchIn\<close> and \<open>punchOut\<close> are the operations). A punch
  time or timestamp is a string or \<^verbatim>\<open>null\<close> (\<open>None\<close>). \<open>rec_workingHours\<close> is a finite
  number or \<^verbatim>\<open>null\<close>: \<^verbatim>\<open>JSON.stringify\<close> writes \<^verbatim>\<open>NaN\<close> as \<^verbatim>\<open>null\<close>, so no stored
  record holds \<^verbatim>\<open>NaN\<close>. The notes are a list of UTF-16 code units. A record that lacks
  a field, or holds a value of another type in it, is outside this type.
\<close>

type_synonym utf16 = "nat list"

record attendance_record =
  rec_date :: string
  rec_punchIn :: "string option"
  rec_punchInTimestamp :: "string option"
  rec_punchOut :: "string option"
  rec_punchOutTimestamp :: "string option"
  rec_workingHours :: "rat option"
  rec_notes :: utf16

text \<open>
  The records of one user are an object keyed by date: an association list, in the
  object's own key order (the order of \<^verbatim>\<open>for ... in\<close>), looked up with \<open>map_of\<close> and
  assigned with \<open>AList.update\<close>, which replaces in place or appends. All records are an
  object keyed by user e-mail. The storage is the item
  \<^verbatim>\<open>sparrowtrack_attendance\<close> of \<^verbatim>\<open>localStorage\<close>: \<open>None\<close> when the item is missing
  or is not JSON, else the object it parses to.
\<close>

type_synonym user_records = "(string \<times> attendance_record) list"

type_synonym records = "string \<Rightarrow> user_records option"

type_synonym storage = "records option"

text \<open>The failures of the handler. In the source each is
  \<^verbatim>\<open>{success: false, message: ...}\<close> with the message
  \<^item> \<open>InvalidUser\<close>: \<^verbatim>\<open>User email is required\<close>;
  \<^item> \<open>AlreadyPunchedIn\<close>: \<^verbatim>\<open>You have already punched in today\<close>;
  \<^item> \<open>NoPunchInFound\<close>: \<^verbatim>\<open>No punch in record found for today\<close>;
  \<^item> \<open>AlreadyPunchedOut\<close>: \<^verbatim>\<open>You have already punched out today\<close>;
  \<^item> \<open>PunchInMissing\<close>: \<^verbatim>\<open>Please punch in first\<close>;
  \<^item> \<open>PersistenceFailure\<close>: \<^verbatim>\<open>Failed to record punch in. Please try again.\<close>, and
    the same with \<^verbatim>\<open>punch out\<close>.\<close>

datatype error =
  InvalidUser | AlreadyPunchedIn | NoPunchInFound | AlreadyPunchedOut | PunchInMissing
  | PersistenceFailure

text \<open>The payloads of the two successes (next to \<^verbatim>\<open>success: true\<close> and a fixed message).\<close>

record punchIn_result =
  pi_punchInTime :: string
  pi_date :: string

record punchOut_result =
  po_punchOutTime :: string
  po_workingHours :: jsnum
  po_formattedHours :: string
  po_date :: string

text \<open>An entry of the history, and the two summaries.\<close>

record history_entry =
  h_date :: string
  h_formattedDate :: string
  h_punchIn :: "string option"
  h_punchOut :: "string option"
  h_workingHours :: rat
  h_formattedHours :: string
  h_notes :: utf16
  h_status :: string

record weekly_summary =
  w_weekStart :: string
  w_weekEnd :: string
  w_totalHours :: rat
  w_formattedTotalHours :: string
  w_averageHours :: rat
  w_formattedAverageHours :: string
  w_daysWorked :: nat
  w_daysPresent :: nat
  w_records :: "history_entry list"

record monthly_summary =
  m_month :: int
  m_year :: int
  m_monthName :: string
  m_totalHours :: rat
  m_formattedTotalHours :: string
  m_averageHours :: rat
  m_formattedAverageHours :: string
  m_daysWorked :: nat
  m_daysPresent :: nat
  m_fullDays :: nat
  m_workingDaysInMonth :: nat
  m_records :: "history_entry list"

subsection \<open>DataManager\<close>

definition getAttendanceRecords :: "storage \<Rightarrow> records" where
  "getAttendanceRecords storage = (case storage of None \<Rightarrow> Map.empty | Some records \<Rightarrow> records)"

text \<open>\<^verbatim>\<open>setAttendanceRecords\<close> returns whether \<^verbatim>\<open>setItem\<close> succeeded, and the storage
  after the call.\<close>

definition setAttendanceRecords :: "env \<Rightarrow> records \<Rightarrow> storage \<Rightarrow> bool \<times> storage" where
  "setAttendanceRecords env records storage =
     (if setItemOk env then (True, Some records) else (False, storage))"

subsection \<open>The punch state machine\<close>

text \<open>What \<^verbatim>\<open>JSON.stringify\<close> stores for a number.\<close>

definition jsonNumber :: "jsnum \<Rightarrow> rat option" where
  "jsonNumber n = (case n of Num r \<Rightarrow> Some r | NaN \<Rightarrow> None)"

text \<open>
  \<^verbatim>\<open>String.prototype.trim\<close> removes the leading and the trailing code units that are
  white space or line terminators: U+0009 to U+000D, U+0020, U+00A0, U+1680, U+2000 to
  U+200A, U+2028, U+2029, U+202F, U+205F, U+3000 and U+FEFF.
\<close>

definition isWhiteSpace :: "nat \<Rightarrow> bool" where
  "isWhiteSpace c =
     (c \<in> set [0x09, 0x0A, 0x0B, 0x0C, 0x0D, 0x20, 0xA0, 0x1680, 0x2028, 0x2029, 0x202F,
               0x205F, 0x3000, 0xFEFF]
      \<or> (0x2000 \<le> c \<and> c \<le> 0x200A))"

definition String_trim :: "utf16 \<Rightarrow> utf16" where
  "String_trim s = rev (dropWhile isWhiteSpace (rev (dropWhile isWhiteSpace s)))"

text \<open>The code units of a string of ASCII characters.\<close>

definition ascii :: "string \<Rightarrow> utf16" where
  "ascii s = map of_char s"

text \<open>\<^verbatim>\<open>getAttendanceRecord\<close>; a missing or empty \<^verbatim>\<open>date\<close> stands for today. (A user
  key that is only an inherited member holds no record, see \<open>inherited\<close> below.)\<close>

definition getAttendanceRecord ::
  "env \<Rightarrow> storage \<Rightarrow> string \<Rightarrow> string option \<Rightarrow> attendance_record option" where
  "getAttendanceRecord env storage userEmail date =
     (let date' = (if truthy date then (case date of Some d \<Rightarrow> d | None \<Rightarrow> [])
                   else getCurrentDate env);
          records = getAttendanceRecords storage
      in case records userEmail of
           None \<Rightarrow> None
         | Some userRecords \<Rightarrow> map_of userRecords date')"

text \<open>
  The members that every object inherits from \<^verbatim>\<open>Object.prototype\<close>. For such a key
  \<^verbatim>\<open>k\<close> that is not a key of the object \<^verbatim>\<open>records\<close> itself, \<^verbatim>\<open>records[k]\<close> is the
  inherited member: it is truthy, it has no property named by a date (in a realm
  in which no earlier call has put one there), an assignment \<^verbatim>\<open>records[k][today] = ...\<close>
  lands on the member, and \<^verbatim>\<open>JSON.stringify(records)\<close> writes nothing of it.
\<close>

definition Object_prototype_members :: "string list" where
  "Object_prototype_members =
     [''constructor'', ''__proto__'', ''toString'', ''toLocaleString'', ''valueOf'',
      ''hasOwnProperty'', ''isPrototypeOf'', ''propertyIsEnumerable'',
      ''__defineGetter__'', ''__defineSetter__'', ''__lookupGetter__'',
      ''__lookupSetter__'']"

definition inherited :: "records \<Rightarrow> string \<Rightarrow> bool" where
  "inherited records key = (records key = None \<and> key \<in> set Object_prototype_members)"

text \<open>\<^verbatim>\<open>punchIn\<close>. When \<^verbatim>\<open>records[userEmail]\<close> is an inherited member, no object is
  created for the user and the new record is not among the records that are saved.\<close>

definition punchIn ::
  "env \<Rightarrow> string \<Rightarrow> storage \<Rightarrow> (error + punchIn_result) \<times> storage" where
  "punchIn env userEmail storage =
     (if userEmail = [] then (Inl InvalidUser, storage)
      else
        let today = getCurrentDate env;
            currentTime = getCurrentTime env;
            records = getAttendanceRecords storage;
            userRecords = (case records userEmail of None \<Rightarrow> [] | Some rs \<Rightarrow> rs)
        in if (case map_of userRecords today of
                 None \<Rightarrow> False
               | Some todayRecord \<Rightarrow> truthy (rec_punchIn todayRecord))
           then (Inl AlreadyPunchedIn, storage)
           else
             let records' =
                   (if inherited records userEmail then records
                    else records(userEmail \<mapsto>
                      AList.update today
                        \<lparr>rec_date = today,
                         rec_punchIn = Some currentTime,
                         rec_punchInTimestamp = Some (toISOString env),
                         rec_punchOut = None,
                         rec_punchOutTimestamp = None,
                         rec_workingHours = Some 0,
                         rec_notes = []\<rparr>
                        userRecords));
                 (saved, storage') = setAttendanceRecords env records' storage
             in if saved
                then (Inr \<lparr>pi_punchInTime = currentTime, pi_date = today\<rparr>, storage')
                else (Inl PersistenceFailure, storage'))"

text \<open>\<^verbatim>\<open>punchOut\<close>. An inherited member under \<^verbatim>\<open>userEmail\<close> has no record for today, as
  a user without records has none.\<close>

definition punchOut ::
  "env \<Rightarrow> string \<Rightarrow> utf16 \<Rightarrow> storage \<Rightarrow> (error + punchOut_result) \<times> storage" where
  "punchOut env userEmail notes storage =
     (if userEmail = [] then (Inl InvalidUser, storage)
      else
        let today = getCurrentDate env;
            currentTime = getCurrentTime env;
            records = getAttendanceRecords storage
        in case records userEmail of
             None \<Rightarrow> (Inl NoPunchInFound, storage)
           | Some userRecords \<Rightarrow>
               (case map_of userRecords today of
                  None \<Rightarrow> (Inl NoPunchInFound, storage)
                | Some todayRecord \<Rightarrow>
                    if truthy (rec_punchOut todayRecord) then (Inl AlreadyPunchedOut, storage)
                    else
                      (case rec_punchIn todayRecord of
                         None \<Rightarrow> (Inl PunchInMissing, storage)
                       | Some punchInTime \<Rightarrow>
                           if punchInTime = [] then (Inl PunchInMissing, storage)
                           else
                             let workingHours = calculateHours env punchInTime currentTime;
                                 todayRecord' = todayRecord
                                   \<lparr>rec_punchOut := Some currentTime,
                                    rec_punchOutTimestamp := Some (toISOString env),
                                    rec_workingHours := jsonNumber workingHours,
                                    rec_notes := String_trim notes\<rparr>;
                                 records' = records(userEmail \<mapsto>
                                   AList.update today todayRecord' userRecords);
                                 (saved, storage') =
                                   setAttendanceRecords env records' storage
                             in if saved
                                then (Inr \<lparr>po_punchOutTime = currentTime,
                                           po_workingHours = workingHours,
                                           po_formattedHours = formatHours env workingHours,
                                           po_date = today\<rparr>, storage')
                                else (Inl PersistenceFailure, storage'))))"

subsection \<open>History and aggregation\<close>

text \<open>A stored \<^verbatim>\<open>workingHours\<close> as a number (\<^verbatim>\<open>null\<close> converts to 0), and
  \<^verbatim>\<open>workingHours || 0\<close> (\<^verbatim>\<open>null\<close> and 0 are falsy).\<close>

definition toNumber :: "rat option \<Rightarrow> rat" where
  "toNumber v = (case v of None \<Rightarrow> 0 | Some r \<Rightarrow> r)"

definition or_zero :: "rat option \<Rightarrow> rat" where
  "or_zero v = (case v of None \<Rightarrow> 0 | Some r \<Rightarrow> if r = 0 then 0 else r)"

definition getRecordStatus :: "attendance_record \<Rightarrow> string" where
  "getRecordStatus record =
     (if \<not> truthy (rec_punchIn record) then ''No Punch In''
      else if truthy (rec_punchIn record) \<and> \<not> truthy (rec_punchOut record)
        then ''Missing Punch Out''
      else if toNumber (rec_workingHours record) < 4 then ''Short Day''
      else if toNumber (rec_workingHours record) \<ge> 8 then ''Full Day''
      else ''Partial Day'')"

text \<open>Comparing two \<^verbatim>\<open>Date\<close> objects compares their time values; a comparison with an
  invalid date is false.\<close>

definition Date_ge :: "int option \<Rightarrow> int option \<Rightarrow> bool" where
  "Date_ge a b = (case (a, b) of (Some x, Some y) \<Rightarrow> x \<ge> y | _ \<Rightarrow> False)"

definition Date_le :: "int option \<Rightarrow> int option \<Rightarrow> bool" where
  "Date_le a b = (case (a, b) of (Some x, Some y) \<Rightarrow> x \<le> y | _ \<Rightarrow> False)"

text \<open>The test of the loop of \<^verbatim>\<open>getAttendanceHistory\<close>:
  \<^verbatim>\<open>recordDate >= start && recordDate <= end\<close>.\<close>

definition in_range :: "env \<Rightarrow> string \<Rightarrow> string \<Rightarrow> string \<Rightarrow> bool" where
  "in_range env startDate endDate date =
     (Date_ge (Date_value env date) (Date_value env startDate)
      \<and> Date_le (Date_value env date) (Date_value env endDate))"

text \<open>The object pushed for one record, and the loop over the user's records.\<close>

definition history_entry_of :: "env \<Rightarrow> string \<Rightarrow> attendance_record \<Rightarrow> history_entry" where
  "history_entry_of env date record =
     \<lparr>h_date = date,
      h_formattedDate = getFormattedDate env date,
      h_punchIn = rec_punchIn record,
      h_punchOut = rec_punchOut record,
      h_workingHours = or_zero (rec_workingHours record),
      h_formattedHours = formatHours env (Num (or_zero (rec_workingHours record))),
      h_notes = rec_notes record,
      h_status = getRecordStatus record\<rparr>"

fun history_loop ::
  "env \<Rightarrow> int option \<Rightarrow> int option \<Rightarrow> user_records \<Rightarrow> history_entry list
     \<Rightarrow> history_entry list" where
  "history_loop env start end [] history = history"
| "history_loop env start end ((date, record) # rest) history =
     (let recordDate = Date_value env date
      in if Date_ge recordDate start \<and> Date_le recordDate end
         then history_loop env start end rest (history @ [history_entry_of env date record])
         else history_loop env start end rest history)"

text \<open>
  \<^verbatim>\<open>Array.prototype.sort\<close> with the comparator
  \<^verbatim>\<open>(a, b) => new Date(b.date) - new Date(a.date)\<close>. The sort is stable, and a
  comparator result of \<^verbatim>\<open>NaN\<close> counts as 0. Only the sign of the difference of the
  two time values is used, and rounding the difference to a double keeps its sign
  (time values are integers, so a difference that is not 0 is at least 1 in
  magnitude). For a comparator that orders the array
  consistently the result is the one stable sorted arrangement, which insertion from
  the right computes.
\<close>

definition by_date_desc :: "env \<Rightarrow> history_entry \<Rightarrow> history_entry \<Rightarrow> int" where
  "by_date_desc env a b =
     (case (Date_value env (h_date b), Date_value env (h_date a)) of
        (Some tb, Some ta) \<Rightarrow> tb - ta
      | _ \<Rightarrow> 0)"

text \<open>The time value of the date of an entry (0 stands in for an invalid date, which no
  entry of a history has).\<close>

definition time_of :: "env \<Rightarrow> history_entry \<Rightarrow> int" where
  "time_of env h = (case Date_value env (h_date h) of Some t \<Rightarrow> t | None \<Rightarrow> 0)"

fun insert_by :: "('a \<Rightarrow> 'a \<Rightarrow> int) \<Rightarrow> 'a \<Rightarrow> 'a list \<Rightarrow> 'a list" where
  "insert_by cmp x [] = [x]"
| "insert_by cmp x (y # ys) = (if cmp x y \<le> 0 then x # y # ys else y # insert_by cmp x ys)"

definition Array_sort :: "('a \<Rightarrow> 'a \<Rightarrow> int) \<Rightarrow> 'a list \<Rightarrow> 'a list" where
  "Array_sort cmp xs = foldr (insert_by cmp) xs []"

definition getAttendanceHistory ::
  "env \<Rightarrow> storage \<Rightarrow> string \<Rightarrow> string \<Rightarrow> string \<Rightarrow> history_entry list" where
  "getAttendanceHistory env storage userEmail startDate endDate =
     (let records = getAttendanceRecords storage;
          userRecords = (case records userEmail of None \<Rightarrow> [] | Some rs \<Rightarrow> rs);
          start = Date_value env startDate;
          end = Date_value env endDate;
          history = history_loop env start end userRecords []
      in Array_sort (by_date_desc env) history)"

text \<open>The \<^verbatim>\<open>forEach\<close> loops of the two summaries, on
  \<open>(totalHours, daysWorked, daysPresent)\<close> and, for the month, \<open>fullDays\<close>. Each
  \<^verbatim>\<open>totalHours += record.workingHours\<close> rounds the sum to a double.\<close>

fun weekly_loop ::
  "env \<Rightarrow> history_entry list \<Rightarrow> rat \<times> nat \<times> nat \<Rightarrow> rat \<times> nat \<times> nat" where
  "weekly_loop env [] acc = acc"
| "weekly_loop env (record # rest) (totalHours, daysWorked, daysPresent) =
     weekly_loop env rest
       (if truthy (h_punchIn record) then
          (if h_workingHours record > 0
           then (roundDouble env (totalHours + h_workingHours record),
                 daysWorked + 1, daysPresent + 1)
           else (totalHours, daysWorked, daysPresent + 1))
        else (totalHours, daysWorked, daysPresent))"

fun monthly_loop ::
  "env \<Rightarrow> history_entry list \<Rightarrow> rat \<times> nat \<times> nat \<times> nat \<Rightarrow> rat \<times> nat \<times> nat \<times> nat" where
  "monthly_loop env [] acc = acc"
| "monthly_loop env (record # rest) (totalHours, daysWorked, daysPresent, fullDays) =
     monthly_loop env rest
       (if truthy (h_punchIn record) then
          (if h_workingHours record > 0
           then (roundDouble env (totalHours + h_workingHours record),
                 daysWorked + 1, daysPresent + 1,
                 if h_workingHours record \<ge> 8 then fullDays + 1 else fullDays)
           else (totalHours, daysWorked, daysPresent + 1, fullDays))
        else (totalHours, daysWorked, daysPresent, fullDays))"

text \<open>The sum of a list of numbers as JavaScript adds them up: from 0, from left to
  right, each partial sum rounded to a double.\<close>

definition sum_doubles :: "env \<Rightarrow> rat list \<Rightarrow> rat" where
  "sum_doubles env xs = foldl (\<lambda>total x. roundDouble env (total + x)) 0 xs"

definition getWeeklySummary :: "env \<Rightarrow> storage \<Rightarrow> string \<Rightarrow> string \<Rightarrow> weekly_summary" where
  "getWeeklySummary env storage userEmail weekStartDate =
     (let (startDate, endDate) = weekRange env weekStartDate;
          history = getAttendanceHistory env storage userEmail startDate endDate;
          (totalHours, daysWorked, daysPresent) = weekly_loop env history (0, 0, 0)
      in \<lparr>w_weekStart = weekStartDate,
          w_weekEnd = endDate,
          w_totalHours = totalHours,
          w_formattedTotalHours = formatHours env (Num totalHours),
          w_averageHours =
            (if daysWorked > 0 then roundDouble env (totalHours / of_nat daysWorked) else 0),
          w_formattedAverageHours =
            (if daysWorked > 0
             then formatHours env (Num (roundDouble env (totalHours / of_nat daysWorked)))
             else ''0 hours''),
          w_daysWorked = daysWorked,
          w_daysPresent = daysPresent,
          w_records = history\<rparr>)"

definition getWorkingDaysInMonth :: "env \<Rightarrow> int \<Rightarrow> int \<Rightarrow> nat" where
  "getWorkingDaysInMonth env year month =
     length (filter (\<lambda>d. getDay env year month d \<noteq> 0 \<and> getDay env year month d \<noteq> 6)
               [1 ..< Suc (lastDayOfMonth env year month)])"

definition getMonthlySummary :: "env \<Rightarrow> storage \<Rightarrow> string \<Rightarrow> int \<Rightarrow> int \<Rightarrow> monthly_summary" where
  "getMonthlySummary env storage userEmail year month =
     (let (startDate, endDate) = monthRange env year month;
          history = getAttendanceHistory env storage userEmail startDate endDate;
          (totalHours, daysWorked, daysPresent, fullDays) =
            monthly_loop env history (0, 0, 0, 0)
      in \<lparr>m_month = month,
          m_year = year,
          m_monthName = monthName env year month,
          m_totalHours = totalHours,
          m_formattedTotalHours = formatHours env (Num totalHours),
          m_averageHours =
            (if daysWorked > 0 then roundDouble env (totalHours / of_nat daysWorked) else 0),
          m_formattedAverageHours =
            (if daysWorked > 0
             then formatHours env (Num (roundDouble env (totalHours / of_nat daysWorked)))
             else ''0 hours''),
          m_daysWorked = daysWorked,
          m_daysPresent = daysPresent,
          m_fullDays = fullDays,
          m_workingDaysInMonth = getWorkingDaysInMonth env year month,
          m_records = history\<rparr>)"

subsection \<open>The rounding to a double\<close>

text \<open>
  IEEE 754 binary64, rounding to nearest with a tie going to the even significand:
  the integer multiple of the unit in the last place of \<open>x\<close> that is nearest to \<open>x\<close>.
  The unit is \<open>2\<^sup>e\<^sup>-\<^sup>5\<^sup>2\<close> for \<open>2\<^sup>e \<le> |x| < 2\<^sup>e\<^sup>+\<^sup>1\<close>, and \<open>2\<^sup>-\<^sup>1\<^sup>0\<^sup>7\<^sup>4\<close> for the subnormal
  numbers. (Magnitudes of \<open>2\<^sup>1\<^sup>0\<^sup>2\<^sup>4\<close> and more, which round to an infinity, are not
  treated.) This is the \<open>roundDouble\<close> of the sample environment.
\<close>

function bit_length :: "int \<Rightarrow> nat" where
  "bit_length n = (if n \<le> 0 then 0 else Suc (bit_length (n div 2)))"
  by pat_completeness auto
termination
  by (relation "measure nat") auto

declare bit_length.simps [simp del]

definition pow2 :: "int \<Rightarrow> rat" where
  "pow2 k = (if 0 \<le> k then 2 ^ nat k else 1 / 2 ^ nat (- k))"

definition exponent_of :: "rat \<Rightarrow> int" where
  "exponent_of x =
     (let (p, q) = quotient_of \<bar>x\<bar>;
          d = int (bit_length p) - int (bit_length q)
      in if pow2 d \<le> \<bar>x\<bar> then d else d - 1)"

definition round_half_even :: "rat \<Rightarrow> int" where
  "round_half_even y =
     (let f = \<lfloor>y\<rfloor>; r = y - of_int f
      in if r < 1 / 2 then f else if 1 / 2 < r then f + 1
         else if even f then f else f + 1)"

definition binary64 :: "rat \<Rightarrow> rat" where
  "binary64 x =
     (if x = 0 then 0
      else let ulp = pow2 (max (exponent_of x - 52) (- 1074))
           in of_int (round_half_even (x / ulp)) * ulp)"

subsection \<open>Sample data\<close>

text \<open>A sample environment for the examples: the clock reads 17:30:00 on 15 January
  2024, writes succeed, numbers are rounded as binary64, and the \<^verbatim>\<open>Date\<close> parser knows
  the strings below (time values in milliseconds since the epoch, UTC). No example
  renders a number of \<open>10\<^sup>2\<^sup>1\<close> or more; \<open>exponentString\<close> is the rendering of \<open>10\<^sup>2\<^sup>1\<close>.\<close>

definition sample_dates :: "(string \<times> int) list" where
  "sample_dates =
     [(''2000-01-01 09:00:00'', 946717200000),
      (''2000-01-01 09:00:30'', 946717230000),
      (''2000-01-01 10:00:30'', 946720830000),
      (''2000-01-01 17:30:00'', 946747800000),
      (''2024-01-13'', 1705104000000),
      (''2024-01-14'', 1705190400000),
      (''2024-01-15'', 1705276800000),
      (''2024-01-16'', 1705363200000),
      (''2024-01-20'', 1705708800000),
      (''2024-01-21'', 1705795200000)]"

definition sample_env :: env where
  "sample_env =
     \<lparr>getCurrentDate = ''2024-01-15'',
      getCurrentTime = ''17:30:00'',
      toISOString = ''2024-01-15T17:30:00.000Z'',
      setItemOk = True,
      roundDouble = binary64,
      exponentString = (\<lambda>i. ''1e+21''),
      Date_value = map_of sample_dates,
      getFormattedDate = (\<lambda>d. d),
      weekRange = (\<lambda>d. (''2024-01-14'', ''2024-01-20'')),
      monthRange = (\<lambda>y m. (''2024-01-01'', ''2024-01-31'')),
      monthName = (\<lambda>y m. ''January''),
      lastDayOfMonth = (\<lambda>y m. 31),
      getDay = (\<lambda>y m d. d mod 7)\<rparr>"

text \<open>Sample records: a closed day (09:00:00 to 17:30:00, 8.5 hours), an open day, a
  record with a punch-out and hours but no punch-in (as an imported backup can hold),
  and storages built from them.\<close>

definition closed_record :: attendance_record where
  "closed_record =
     \<lparr>rec_date = ''2024-01-14'',
      rec_punchIn = Some ''09:00:00'',
      rec_punchInTimestamp = Some ''2024-01-14T09:00:00.000Z'',
      rec_punchOut = Some ''17:30:00'',
      rec_punchOutTimestamp = Some ''2024-01-14T17:30:00.000Z'',
      rec_workingHours = Some (17 / 2),
      rec_notes = ascii ''done''\<rparr>"

definition open_record :: attendance_record where
  "open_record =
     \<lparr>rec_date = ''2024-01-15'',
      rec_punchIn = Some ''09:00:00'',
      rec_punchInTimestamp = Some ''2024-01-15T09:00:00.000Z'',
      rec_punchOut = None,
      rec_punchOutTimestamp = None,
      rec_workingHours = Some 0,
      rec_notes = []\<rparr>"

definition orphan_record :: "string \<Rightarrow> attendance_record" where
  "orphan_record date =
     \<lparr>rec_date = date,
      rec_punchIn = None,
      rec_punchInTimestamp = None,
      rec_punchOut = Some ''17:00:00'',
      rec_punchOutTimestamp = Some ''2024-01-16T17:00:00.000Z'',
      rec_workingHours = Some 5,
      rec_notes = ascii ''imported''\<rparr>"

definition blank_record :: attendance_record where
  "blank_record =
     \<lparr>rec_date = ''2024-01-15'',
      rec_punchIn = None,
      rec_punchInTimestamp = None,
      rec_punchOut = None,
      rec_punchOutTimestamp = None,
      rec_workingHours = Some 0,
      rec_notes = []\<rparr>"

definition sample_storage :: storage where
  "sample_storage =
     Some (map_of
       [(''ana@example.com'',
           [(''2024-01-13'', closed_record \<lparr>rec_date := ''2024-01-13''\<rparr>),
            (''2024-01-14'', closed_record),
            (''2024-01-15'', open_record)]),
        (''bo@example.com'', [(''2024-01-14'', closed_record)]),
        (''cy@example.com'',
           [(''2024-01-15'', orphan_record ''2024-01-15''),
            (''2024-01-16'', orphan_record ''2024-01-16'')]),
        (''di@example.com'',
           [(''2024-01-15'', closed_record \<lparr>rec_date := ''2024-01-15''\<rparr>)]),
        (''ed@example.com'', [(''2024-01-15'', blank_record)])])"

text \<open>Notes with white space around them: a no-break space and a space before, a tab
  and a line separator after \<^verbatim>\<open>left early\<close>.\<close>

definition sample_notes :: utf16 where
  "sample_notes = [0xA0, 0x20] @ ascii ''left early'' @ [0x09, 0x2028]"

text \<open>The same environment with a storage that refuses every write.\<close>

definition full_env :: env where
  "full_env = sample_env \<lparr>setItemOk := False\<rparr>"

text \<open>The weekly summary of the user whose records have hours but no punch-in, and the
  test \<^verbatim>\<open>workingHours > 0\<close> on an entry of a history.\<close>

definition orphan_week :: weekly_summary where
  "orphan_week = getWeeklySummary sample_env sample_storage ''cy@example.com'' ''2024-01-14''"

definition hours_positive :: "history_entry \<Rightarrow> bool" where
  "hours_positive h = (0 < h_workingHours h)"

text \<open>What the handler needs of the rounding where it tests the sign of a result: a
  number that is not positive is not rounded to a positive one, a number from 1 on is
  not rounded below 1, and a positive normal number (\<open>2\<^sup>-\<^sup>1\<^sup>0\<^sup>2\<^sup>2\<close> or more) is rounded to a
  positive number.\<close>

definition sign_laws :: "(rat \<Rightarrow> rat) \<Rightarrow> bool" where
  "sign_laws f =
     (\<forall>x. (x \<le> 0 \<longrightarrow> f x \<le> 0) \<and> (1 \<le> x \<longrightarrow> 1 \<le> f x)
          \<and> (pow2 (- 1022) \<le> x \<longrightarrow> 0 < f x))"

section \<open>Properties of the rounding\<close>

lemma pow2_pos: "0 < pow2 k"
  by (simp add: pow2_def)

lemma pow2_Suc: "pow2 (k + 1) = 2 * pow2 k"
proof (cases "0 \<le> k")
  case True
  then show ?thesis by (simp add: pow2_def nat_add_distrib)
next
  case False
  then have k: "k < 0" by simp
  show ?thesis
  proof (cases "k = - 1")
    case True
    then show ?thesis by (simp add: pow2_def)
  next
    case False
    with k have "nat (- k) = Suc (nat (- (k + 1)))" by simp
    with k False show ?thesis by (simp add: pow2_def)
  qed
qed

lemma pow2_nat: "pow2 (int n) = 2 ^ n"
  by (simp add: pow2_def)

lemma pow2_add_nat: "pow2 (k + int n) = 2 ^ n * pow2 k"
proof (induction n)
  case 0
  show ?case by simp
next
  case (Suc n)
  have "pow2 (k + int (Suc n)) = pow2 ((k + int n) + 1)" by (simp add: algebra_simps)
  also have "\<dots> = 2 * pow2 (k + int n)" by (rule pow2_Suc)
  finally show ?case using Suc by simp
qed

lemma pow2_mono: "a \<le> b \<Longrightarrow> pow2 a \<le> pow2 b"
proof -
  assume "a \<le> b"
  then obtain n where b: "b = a + int n" by (metis zle_iff_zadd)
  have "(1::rat) \<le> 2 ^ n" by simp
  then have "pow2 a \<le> 2 ^ n * pow2 a"
    using pow2_pos [of a] by (simp add: mult_le_cancel_right1)
  then show ?thesis by (simp add: b pow2_add_nat)
qed

lemma bit_length_bounds:
  "0 < n \<Longrightarrow> 2 ^ (bit_length n - 1) \<le> n \<and> n < 2 ^ bit_length n"
proof (induction n rule: bit_length.induct)
  case (1 n)
  show ?case
  proof (cases "n = 1")
    case True
    then show ?thesis by (simp add: bit_length.simps [of 1] bit_length.simps [of 0])
  next
    case False
    with "1.prems" have n: "2 \<le> n" by simp
    then have h: "0 < n div 2" by simp
    from "1.IH" [OF _ h] "1.prems"
    have ih: "2 ^ (bit_length (n div 2) - 1) \<le> n div 2" "n div 2 < 2 ^ bit_length (n div 2)"
      by simp_all
    have bl: "bit_length n = Suc (bit_length (n div 2))"
      using "1.prems" by (simp add: bit_length.simps [of n])
    have pos: "0 < bit_length (n div 2)"
      using h by (simp add: bit_length.simps [of "n div 2"])
    then have e: "bit_length (n div 2) = Suc (bit_length (n div 2) - 1)" by simp
    have "2 ^ bit_length (n div 2) = 2 * (2::int) ^ (bit_length (n div 2) - 1)"
      by (subst e) simp
    also have "\<dots> \<le> 2 * (n div 2)" using ih(1) by simp
    also have "\<dots> \<le> n" by simp
    finally have lo: "2 ^ (bit_length n - 1) \<le> n" by (simp add: bl)
    have "n < 2 * (n div 2) + 2" by simp
    also have "\<dots> \<le> 2 * 2 ^ bit_length (n div 2)" using ih(2) by simp
    finally have "n < 2 ^ bit_length n" by (simp add: bl)
    with lo show ?thesis by simp
  qed
qed

lemma exponent_of_bounds:
  assumes "x \<noteq> 0"
  shows "pow2 (exponent_of x) \<le> \<bar>x\<bar> \<and> \<bar>x\<bar> < pow2 (exponent_of x + 1)"
proof -
  obtain p q where pq: "quotient_of \<bar>x\<bar> = (p, q)" by (cases "quotient_of \<bar>x\<bar>")
  have q: "0 < q" using pq by (rule quotient_of_denom_pos)
  have x: "\<bar>x\<bar> = of_int p / of_int q" using pq by (rule quotient_of_div)
  have xp: "0 < \<bar>x\<bar>" using assms by simp
  then have p: "0 < p" using q unfolding x by (simp add: zero_less_divide_iff)
  define bp where "bp = bit_length p"
  define bq where "bq = bit_length q"
  define d where "d = int bp - int bq"
  have bpb: "2 ^ (bp - 1) \<le> p" "p < 2 ^ bp"
    using bit_length_bounds [OF p] by (simp_all add: bp_def)
  have bqb: "2 ^ (bq - 1) \<le> q" "q < 2 ^ bq"
    using bit_length_bounds [OF q] by (simp_all add: bq_def)
  have bp0: "0 < bp" using p by (simp add: bp_def bit_length.simps [of p])
  have bq0: "0 < bq" using q by (simp add: bq_def bit_length.simps [of q])
  have e: "exponent_of x = (if pow2 d \<le> \<bar>x\<bar> then d else d - 1)"
    by (simp add: exponent_of_def pq d_def bp_def bq_def)
  \<comment> \<open>\<open>2\<^sup>d\<^sup>-\<^sup>1 < |x| < 2\<^sup>d\<^sup>+\<^sup>1\<close>\<close>
  have qr: "(0::rat) < of_int q" using q by simp
  have up: "\<bar>x\<bar> < pow2 (d + 1)"
  proof -
    have "of_int p < (2::rat) ^ bp" using bpb(2) by (metis of_int_less_iff of_int_numeral of_int_power)
    moreover have "(2::rat) ^ (bq - 1) \<le> of_int q"
      using bqb(1) by (metis of_int_le_iff of_int_numeral of_int_power)
    moreover have "pow2 (d + 1) * 2 ^ (bq - 1) = 2 ^ bp"
    proof -
      have "d + 1 + int (bq - 1) = int bp" using bq0 by (simp add: d_def)
      then have "pow2 (int bp) = 2 ^ (bq - 1) * pow2 (d + 1)"
        using pow2_add_nat [of "d + 1" "bq - 1"] by simp
      then show ?thesis by (simp add: pow2_nat mult.commute)
    qed
    ultimately have "of_int p < pow2 (d + 1) * of_int q"
    proof -
      assume lt: "of_int p < (2::rat) ^ bp" and le: "(2::rat) ^ (bq - 1) \<le> of_int q"
        and eq: "pow2 (d + 1) * 2 ^ (bq - 1) = 2 ^ bp"
      have "0 \<le> pow2 (d + 1)" using pow2_pos [of "d + 1"] by simp
      with le have "pow2 (d + 1) * 2 ^ (bq - 1) \<le> pow2 (d + 1) * of_int q"
        by (rule mult_left_mono)
      with lt eq show ?thesis by linarith
    qed
    then show ?thesis unfolding x using qr by (simp add: pos_divide_less_eq)
  qed
  have lo: "pow2 (d - 1) \<le> \<bar>x\<bar>"
  proof -
    have "(2::rat) ^ (bp - 1) \<le> of_int p"
      using bpb(1) by (metis of_int_le_iff of_int_numeral of_int_power)
    moreover have "of_int q \<le> (2::rat) ^ bq"
      using bqb(2) by (metis less_imp_le of_int_le_iff of_int_numeral of_int_power)
    moreover have "pow2 (d - 1) * 2 ^ bq = 2 ^ (bp - 1)"
    proof -
      have "d - 1 + int bq = int (bp - 1)" using bp0 by (simp add: d_def)
      then have "pow2 (int (bp - 1)) = 2 ^ bq * pow2 (d - 1)"
        using pow2_add_nat [of "d - 1" bq] by simp
      then show ?thesis by (simp add: pow2_nat mult.commute)
    qed
    ultimately have "pow2 (d - 1) * of_int q \<le> of_int p"
    proof -
      assume lo: "(2::rat) ^ (bp - 1) \<le> of_int p" and le: "of_int q \<le> (2::rat) ^ bq"
        and eq: "pow2 (d - 1) * 2 ^ bq = 2 ^ (bp - 1)"
      have "0 \<le> pow2 (d - 1)" using pow2_pos [of "d - 1"] by simp
      with le have "pow2 (d - 1) * of_int q \<le> pow2 (d - 1) * 2 ^ bq"
        by (rule mult_left_mono)
      with lo eq show ?thesis by linarith
    qed
    then show ?thesis unfolding x using qr by (simp add: pos_le_divide_eq)
  qed
  show ?thesis
  proof (cases "pow2 d \<le> \<bar>x\<bar>")
    case True
    with up e show ?thesis by simp
  next
    case False
    with lo e show ?thesis by simp
  qed
qed

lemma round_half_even_ge_floor: "\<lfloor>y\<rfloor> \<le> round_half_even y"
  by (simp add: round_half_even_def Let_def)

lemma round_half_even_nonpos:
  assumes "y \<le> 0"
  shows "round_half_even y \<le> 0"
proof (cases "y = of_int \<lfloor>y\<rfloor>")
  case True
  then have "round_half_even y = \<lfloor>y\<rfloor>" by (simp add: round_half_even_def Let_def)
  with assms show ?thesis by (simp add: floor_le_zero)
next
  case False
  have "of_int \<lfloor>y\<rfloor> \<le> y" by (rule of_int_floor_le)
  with False assms have "of_int \<lfloor>y\<rfloor> < (0::rat)" by linarith
  then have "\<lfloor>y\<rfloor> < 0" by (simp only: of_int_less_0_iff)
  then have "\<lfloor>y\<rfloor> \<le> - 1" by linarith
  moreover have "round_half_even y \<le> \<lfloor>y\<rfloor> + 1"
    by (simp add: round_half_even_def Let_def)
  ultimately show ?thesis by linarith
qed

lemma binary64_nonpos:
  assumes "x \<le> 0"
  shows "binary64 x \<le> 0"
proof (cases "x = 0")
  case True
  then show ?thesis by (simp add: binary64_def)
next
  case False
  define ulp where "ulp = pow2 (max (exponent_of x - 52) (- 1074))"
  have u: "0 < ulp" unfolding ulp_def by (rule pow2_pos)
  with assms have "x / ulp \<le> 0" by (simp add: divide_le_0_iff)
  then have "round_half_even (x / ulp) \<le> 0" by (rule round_half_even_nonpos)
  then have "of_int (round_half_even (x / ulp)) * ulp \<le> 0"
    using u by (simp add: mult_le_0_iff)
  with False show ?thesis by (simp add: binary64_def Let_def ulp_def)
qed

lemma binary64_ge_pow2:
  assumes "pow2 (- 1022) \<le> x"
  shows "pow2 (exponent_of x) \<le> binary64 x"
proof -
  have xp: "0 < x" using assms pow2_pos [of "- 1022"] by linarith
  then have x0: "x \<noteq> 0" and ax: "\<bar>x\<bar> = x" by simp_all
  define e where "e = exponent_of x"
  from exponent_of_bounds [OF x0] have b: "pow2 e \<le> x" "x < pow2 (e + 1)"
    by (simp_all add: e_def ax)
  have e1: "- 1022 \<le> e"
  proof (rule ccontr)
    assume "\<not> - 1022 \<le> e"
    then have "e + 1 \<le> - 1022" by simp
    then have "pow2 (e + 1) \<le> pow2 (- 1022)" by (rule pow2_mono)
    with b(2) assms show False by linarith
  qed
  then have mx: "max (e - 52) (- 1074) = e - 52" by simp
  define ulp where "ulp = pow2 (e - 52)"
  have u: "0 < ulp" unfolding ulp_def by (rule pow2_pos)
  have pe: "pow2 e = 2 ^ 52 * ulp"
    using pow2_add_nat [of "e - 52" 52] by (simp add: ulp_def)
  have "2 ^ 52 * ulp \<le> x" using b(1) pe by simp
  then have "(2::rat) ^ 52 \<le> x / ulp" using u by (simp add: pos_le_divide_eq)
  then have "of_int (2 ^ 52) \<le> x / ulp" by simp
  then have "2 ^ 52 \<le> \<lfloor>x / ulp\<rfloor>" by (simp only: le_floor_iff)
  also have "\<dots> \<le> round_half_even (x / ulp)" by (rule round_half_even_ge_floor)
  finally have "(2::rat) ^ 52 \<le> of_int (round_half_even (x / ulp))"
    by (metis of_int_le_iff of_int_numeral of_int_power)
  then have "2 ^ 52 * ulp \<le> of_int (round_half_even (x / ulp)) * ulp"
    using u by (simp add: mult_le_cancel_right)
  moreover have "binary64 x = of_int (round_half_even (x / ulp)) * ulp"
    using x0 mx by (simp add: binary64_def Let_def ulp_def e_def)
  ultimately have "pow2 e \<le> binary64 x" by (simp add: pe)
  then show ?thesis by (simp add: e_def)
qed

lemma binary64_pos:
  assumes "pow2 (- 1022) \<le> x"
  shows "0 < binary64 x"
  using binary64_ge_pow2 [OF assms] pow2_pos [of "exponent_of x"] by linarith

lemma binary64_ge_1:
  assumes "1 \<le> x"
  shows "1 \<le> binary64 x"
proof -
  have "pow2 (- 1022) \<le> pow2 0" by (rule pow2_mono) simp
  then have s: "pow2 (- 1022) \<le> 1" by (simp add: pow2_def)
  with assms have n: "pow2 (- 1022) \<le> x" by linarith
  have x0: "x \<noteq> 0" and ax: "\<bar>x\<bar> = x" using assms by simp_all
  from exponent_of_bounds [OF x0] have b: "x < pow2 (exponent_of x + 1)" by (simp add: ax)
  have "0 \<le> exponent_of x"
  proof (rule ccontr)
    assume "\<not> 0 \<le> exponent_of x"
    then have "exponent_of x + 1 \<le> 0" by simp
    then have "pow2 (exponent_of x + 1) \<le> pow2 0" by (rule pow2_mono)
    with b assms show False by (simp add: pow2_def)
  qed
  then have "pow2 0 \<le> pow2 (exponent_of x)" by (rule pow2_mono)
  with binary64_ge_pow2 [OF n] show ?thesis by (simp add: pow2_def)
qed

lemma sign_laws_binary64: "sign_laws binary64"
  unfolding sign_laws_def using binary64_nonpos binary64_ge_1 binary64_pos by blast

section \<open>Properties of TimeMath\<close>

lemma nat_digits_1: "nat_digits (Suc 0) = ''1''"
  by (subst nat_digits.simps) simp

lemma nat_digits_small:
  "nat_digits 0 = ''0''" "nat_digits 2 = ''2''" "nat_digits 30 = ''30''" "nat_digits 60 = ''60''"
  by code_simp+

lemma numberToString_small:
  "numberToString env 0 = ''0''" "numberToString env 1 = ''1''" "numberToString env 2 = ''2''"
  "numberToString env 30 = ''30''" "numberToString env 60 = ''60''"
  by (simp_all add: numberToString_def nat_digits_small nat_digits_1)

lemma floor_add_half_up:
  fixes x :: rat
  assumes "1 / 2 \<le> frac x"
  shows "\<lfloor>x + 1 / 2\<rfloor> = \<lfloor>x\<rfloor> + 1"
proof -
  have lt: "frac x < 1" by (rule frac_lt_1)
  have split: "x = of_int \<lfloor>x\<rfloor> + frac x" by (simp add: frac_def)
  show ?thesis
  proof (rule floor_unique)
    show "of_int (\<lfloor>x\<rfloor> + 1) \<le> x + 1 / 2" using split assms by (simp; linarith?)
    show "x + 1 / 2 < of_int (\<lfloor>x\<rfloor> + 1) + 1" using split lt by (simp; linarith?)
  qed
qed

lemma floor_add_half_down:
  fixes x :: rat
  assumes "\<not> 1 / 2 \<le> frac x"
  shows "\<lfloor>x + 1 / 2\<rfloor> = \<lfloor>x\<rfloor>"
proof -
  have le: "of_int \<lfloor>x\<rfloor> \<le> x" by (rule of_int_floor_le)
  have split: "x = of_int \<lfloor>x\<rfloor> + frac x" by (simp add: frac_def)
  show ?thesis
  proof (rule floor_unique)
    show "of_int \<lfloor>x\<rfloor> \<le> x + 1 / 2" using le by linarith
    show "x + 1 / 2 < of_int \<lfloor>x\<rfloor> + 1" using split assms by linarith
  qed
qed

lemma Math_round_half_up: "Math_round x = round_half_up x"
  by (simp add: Math_round_def round_half_up_def floor_add_half_up floor_add_half_down)


lemma formatHours_Num:
  "formatHours env (Num h) =
     (if \<lfloor>h\<rfloor> = 0
      then numberToString env
             (Math_round (roundDouble env (roundDouble env (h - of_int \<lfloor>h\<rfloor>) * 60)))
             @ '' minutes''
      else if Math_round (roundDouble env (roundDouble env (h - of_int \<lfloor>h\<rfloor>) * 60)) = 0 then
        numberToString env \<lfloor>h\<rfloor> @ '' '' @ (if \<lfloor>h\<rfloor> = 1 then ''hour'' else ''hours'')
      else numberToString env \<lfloor>h\<rfloor> @ ''h ''
             @ numberToString env
                 (Math_round (roundDouble env (roundDouble env (h - of_int \<lfloor>h\<rfloor>) * 60)))
             @ ''m'')"
  unfolding formatHours_def Let_def by (simp only: jsnum.case)

lemma pow2_below_quotient: "pow2 (- 1022) \<le> 1 / 3600000"
proof -
  have "pow2 (- 1022) \<le> pow2 (- 22)" by (rule pow2_mono) simp
  also have "\<dots> \<le> 1 / 3600000" by (simp add: pow2_def)
  finally show ?thesis .
qed

text \<open>
  Claim C3. For time-of-day strings \<open>startTime\<close> and \<open>endTime\<close> (strings that the
  \<^verbatim>\<open>Date\<close> parser accepts after the common date 2000-01-01, with time values \<open>s\<close>
  and \<open>e\<close> in milliseconds), \<open>calculateHours\<close> returns \<open>max(0, e - s)\<close> in hours, the
  difference and the quotient being the doubles that the runtime computes: a number
  that is never negative, that is 0 whenever the end is not after the start, and
  that is positive otherwise. The rounding is any rounding with the sign laws; the
  binary64 rounding has them.
\<close>

theorem calculateHours_clamped:
  assumes "Date_value env (''2000-01-01 '' @ startTime) = Some s"
    and "Date_value env (''2000-01-01 '' @ endTime) = Some e"
    and "sign_laws (roundDouble env)"
  shows "\<exists>h. calculateHours env startTime endTime = Num h
           \<and> h = max 0 (roundDouble env (roundDouble env (of_int (e - s)) / 3600000))
           \<and> 0 \<le> h
           \<and> (if e \<le> s then h = 0
               else h = roundDouble env (roundDouble env (of_int (e - s)) / 3600000) \<and> 0 < h)"
proof -
  define d where "d = roundDouble env (of_int (e - s))"
  define q where "q = roundDouble env (d / 3600000)"
  have c: "calculateHours env startTime endTime = Num (max 0 q)"
    using assms(1,2) by (simp add: calculateHours_def q_def d_def)
  have laws: "\<And>x. x \<le> 0 \<Longrightarrow> roundDouble env x \<le> 0"
    "\<And>x. 1 \<le> x \<Longrightarrow> 1 \<le> roundDouble env x"
    "\<And>x. pow2 (- 1022) \<le> x \<Longrightarrow> 0 < roundDouble env x"
    using assms(3) by (simp_all add: sign_laws_def)
  have sgn: "if e \<le> s then q \<le> 0 else 0 < q"
  proof (cases "e \<le> s")
    case True
    then have "(of_int (e - s) :: rat) \<le> 0" by simp
    then have "d \<le> 0" unfolding d_def by (rule laws(1))
    then have "d / 3600000 \<le> 0" by (simp add: divide_le_0_iff)
    then have "q \<le> 0" unfolding q_def by (rule laws(1))
    with True show ?thesis by simp
  next
    case False
    then have "1 \<le> e - s" by simp
    then have "(1::rat) \<le> of_int (e - s)" by (metis of_int_le_iff of_int_1)
    then have "1 \<le> d" unfolding d_def by (rule laws(2))
    then have "1 / 3600000 \<le> d / 3600000" by (simp add: divide_right_mono)
    with pow2_below_quotient have "pow2 (- 1022) \<le> d / 3600000" by (rule order_trans)
    then have "0 < q" unfolding q_def by (rule laws(3))
    with False show ?thesis by simp
  qed
  show ?thesis
  proof (intro exI [of _ "max 0 q"] conjI)
    show "calculateHours env startTime endTime = Num (max 0 q)" by (rule c)
    show "max 0 q = max 0 (roundDouble env (roundDouble env (of_int (e - s)) / 3600000))"
      by (simp add: q_def d_def)
    show "0 \<le> max 0 q" by simp
    show "if e \<le> s then max 0 q = 0
          else max 0 q = roundDouble env (roundDouble env (of_int (e - s)) / 3600000)
               \<and> 0 < max 0 q"
      using sgn by (auto simp: q_def d_def max_def split: if_splits)
  qed
qed

lemma roundDouble_sample [simp]: "roundDouble sample_env = binary64"
  by (simp add: sample_env_def)

lemma sample_quotient: "binary64 (binary64 30600000 / 3600000) = 17 / 2"
  by code_simp

theorem calculateHours_clamped_witness:
  "calculateHours sample_env ''09:00:00'' ''17:30:00'' = Num (17 / 2)
   \<and> calculateHours sample_env ''17:30:00'' ''09:00:00'' = Num 0"
proof -
  have a: "Date_value sample_env (''2000-01-01 '' @ ''09:00:00'') = Some 946717200000"
    by (simp add: sample_env_def sample_dates_def)
  have b: "Date_value sample_env (''2000-01-01 '' @ ''17:30:00'') = Some 946747800000"
    by (simp add: sample_env_def sample_dates_def)
  have l: "sign_laws (roundDouble sample_env)"
    by (simp add: sign_laws_binary64)
  from calculateHours_clamped [OF a b l] calculateHours_clamped [OF b a l]
  show ?thesis by (auto simp: sample_quotient)
qed




text \<open>
  Claim C9. \<open>formatHours\<close> does not carry 60 rounded minutes into the hours: whenever
  the fractional part of the argument, in minutes as the runtime computes them, rounds
  half-up to a full 60, the output has a 60-minute component, \<open>"60 minutes"\<close> when the
  whole hours are 0 and \<open>"{hours}h 60m"\<close> otherwise. So 1.9999 (the double of this name)
  is rendered \<open>"1h 60m"\<close>, not \<open>"2 hours"\<close>.
\<close>

theorem formatHours_no_carry:
  assumes "round_half_up (roundDouble env (roundDouble env (frac h) * 60)) = 60"
  shows "formatHours env (Num h) =
           (if \<lfloor>h\<rfloor> = 0 then ''60 minutes'' else numberToString env \<lfloor>h\<rfloor> @ ''h 60m'')"
proof -
  have m: "Math_round (roundDouble env (roundDouble env (h - of_int \<lfloor>h\<rfloor>) * 60)) = 60"
    using assms by (simp only: Math_round_half_up frac_def)
  show ?thesis
    unfolding formatHours_Num m by (simp add: numberToString_small)
qed

lemma double_19999:
  "round_half_up (roundDouble sample_env
      (roundDouble sample_env (frac (binary64 (19999 / 10000))) * 60)) = 60"
  "\<lfloor>binary64 (19999 / 10000)\<rfloor> = 1"
  by code_simp+

theorem formatHours_no_carry_witness:
  "round_half_up (roundDouble sample_env
      (roundDouble sample_env (frac (binary64 (19999 / 10000))) * 60)) = 60
   \<and> formatHours sample_env (Num (binary64 (19999 / 10000))) = ''1h 60m''
   \<and> formatHours sample_env (Num (binary64 (19999 / 10000))) \<noteq> ''2 hours''"
proof -
  from formatHours_no_carry [OF double_19999(1)]
  have "formatHours sample_env (Num (binary64 (19999 / 10000))) = ''1h 60m''"
    by (simp add: double_19999(2) numberToString_small)
  with double_19999(1) show ?thesis by simp
qed

text \<open>The rendering of three durations in doubles: 30 seconds are 0.008333333333333333
  hours, whose minutes are the double 0.5 and round to 1; 1 hour and 30 seconds are
  1.0083333333333333 hours, whose minutes are below 0.5 and round to 0; 0.075 hours
  are 4.5 minutes in doubles and round to 5.\<close>

lemma formatHours_doubles:
  "formatHours sample_env (calculateHours sample_env ''09:00:00'' ''09:00:30'') = ''1 minutes''"
  "formatHours sample_env (calculateHours sample_env ''09:00:00'' ''10:00:30'') = ''1 hour''"
  "formatHours sample_env (Num (binary64 (3 / 40))) = ''5 minutes''"
  by code_simp+

section \<open>Properties of the punch state machine\<close>

lemma getAttendanceRecord_today:
  "getAttendanceRecord env storage userEmail None =
     (case getAttendanceRecords storage userEmail of
        None \<Rightarrow> None
      | Some userRecords \<Rightarrow> map_of userRecords (getCurrentDate env))"
  by (simp add: getAttendanceRecord_def truthy_def)

lemma getAttendanceRecords_Some [simp]: "getAttendanceRecords (Some records) = records"
  by (simp add: getAttendanceRecords_def)

lemma punchIn_eq:
  assumes "userEmail \<noteq> []"
  shows "punchIn env userEmail storage =
     (if (case getAttendanceRecord env storage userEmail None of
            None \<Rightarrow> False | Some r \<Rightarrow> truthy (rec_punchIn r))
      then (Inl AlreadyPunchedIn, storage)
      else if setItemOk env then
        (Inr \<lparr>pi_punchInTime = getCurrentTime env, pi_date = getCurrentDate env\<rparr>,
         Some (if inherited (getAttendanceRecords storage) userEmail
               then getAttendanceRecords storage
               else (getAttendanceRecords storage)(userEmail \<mapsto>
                 AList.update (getCurrentDate env)
                   \<lparr>rec_date = getCurrentDate env,
                    rec_punchIn = Some (getCurrentTime env),
                    rec_punchInTimestamp = Some (toISOString env),
                    rec_punchOut = None,
                    rec_punchOutTimestamp = None,
                    rec_workingHours = Some 0,
                    rec_notes = []\<rparr>
                   (case getAttendanceRecords storage userEmail of
                      None \<Rightarrow> [] | Some rs \<Rightarrow> rs))))
      else (Inl PersistenceFailure, storage))"
  using assms
  by (simp add: punchIn_def getAttendanceRecord_today setAttendanceRecords_def Let_def
           split: option.splits)

text \<open>An e-mail address, which has an \<open>@\<close>, names no inherited member; and a user with
  a record is a key of the records.\<close>

lemma address_not_inherited:
  "CHR ''@'' \<in> set userEmail \<Longrightarrow> userEmail \<notin> set Object_prototype_members"
  by (auto simp: Object_prototype_members_def)

lemma not_inherited_member:
  "userEmail \<notin> set Object_prototype_members \<Longrightarrow> \<not> inherited records userEmail"
  by (simp add: inherited_def)

lemma not_inherited_record:
  "getAttendanceRecord env storage userEmail None = Some r \<Longrightarrow>
     \<not> inherited (getAttendanceRecords storage) userEmail"
  by (auto simp: inherited_def getAttendanceRecord_today)

lemma getAttendanceRecord_after_update:
  "getAttendanceRecord env (Some (records(userEmail \<mapsto> AList.update (getCurrentDate env) r rs)))
     userEmail None = Some r"
  by (simp add: getAttendanceRecord_today update_conv')

text \<open>The sample data, evaluated.\<close>

lemma today_sample [simp]: "getCurrentDate sample_env = ''2024-01-15''"
  "getCurrentTime sample_env = ''17:30:00''"
  "toISOString sample_env = ''2024-01-15T17:30:00.000Z''"
  "setItemOk sample_env"
  by (simp_all add: sample_env_def)

lemma full_env_simps [simp]: "getCurrentDate full_env = ''2024-01-15''"
  "getCurrentTime full_env = ''17:30:00''"
  "toISOString full_env = ''2024-01-15T17:30:00.000Z''"
  "\<not> setItemOk full_env"
  by (simp_all add: full_env_def sample_env_def)

lemma sample_today:
  "getAttendanceRecord sample_env sample_storage ''ana@example.com'' None = Some open_record"
  "getAttendanceRecord sample_env sample_storage ''bo@example.com'' None = None"
  "getAttendanceRecord sample_env sample_storage ''cy@example.com'' None
     = Some (orphan_record ''2024-01-15'')"
  "getAttendanceRecord sample_env sample_storage ''di@example.com'' None
     = Some (closed_record \<lparr>rec_date := ''2024-01-15''\<rparr>)"
  "getAttendanceRecord sample_env sample_storage ''ed@example.com'' None = Some blank_record"
  "getAttendanceRecord sample_env sample_storage ''zed@example.com'' None = None"
  "getAttendanceRecord full_env sample_storage ''ana@example.com'' None = Some open_record"
  "getAttendanceRecord full_env sample_storage ''bo@example.com'' None = None"
  by (simp_all add: getAttendanceRecord_today sample_storage_def)

lemma sample_hours: "calculateHours sample_env ''09:00:00'' ''17:30:00'' = Num (17 / 2)"
  by code_simp

lemma format_sample: "formatHours sample_env (Num (17 / 2)) = ''8h 30m''"
  by code_simp

lemma ascii_left_early: "ascii ''left early'' = [108, 101, 102, 116, 32, 101, 97, 114, 108, 121]"
  by (simp add: ascii_def)

lemma trim_sample: "String_trim sample_notes = ascii ''left early''"
  by (simp add: sample_notes_def ascii_left_early String_trim_def isWhiteSpace_def)

text \<open>At a key that is an inherited member and no key of the records, \<open>punchIn\<close>
  reports success and the records that it saves are the records it read.\<close>

lemma punchIn_inherited_key:
  "punchIn sample_env ''constructor'' sample_storage =
     (Inr \<lparr>pi_punchInTime = ''17:30:00'', pi_date = ''2024-01-15''\<rparr>, sample_storage)"
  by (simp add: punchIn_eq getAttendanceRecord_today inherited_def
        Object_prototype_members_def sample_storage_def)

lemma sample_records:
  "getAttendanceRecords sample_storage ''ana@example.com'' =
     Some [(''2024-01-13'', closed_record \<lparr>rec_date := ''2024-01-13''\<rparr>),
           (''2024-01-14'', closed_record),
           (''2024-01-15'', open_record)]"
  by (simp add: sample_storage_def)

text \<open>What \<open>String_trim\<close> removes: white space before and after, and all of it.\<close>

lemma isWhiteSpace_iff:
  "isWhiteSpace c \<longleftrightarrow>
     c \<in> {0x09, 0x0A, 0x0B, 0x0C, 0x0D, 0x20, 0xA0, 0x1680, 0x2028, 0x2029, 0x202F, 0x205F,
           0x3000, 0xFEFF} \<union> {0x2000..0x200A}"
  by (auto simp: isWhiteSpace_def)

lemma String_trim_decomp:
  "\<exists>a b. s = a @ String_trim s @ b \<and> list_all isWhiteSpace a \<and> list_all isWhiteSpace b"
proof -
  define m where "m = dropWhile isWhiteSpace s"
  have s: "s = takeWhile isWhiteSpace s @ m"
    by (simp add: m_def)
  have "m = rev (takeWhile isWhiteSpace (rev m) @ dropWhile isWhiteSpace (rev m))"
    by (simp only: takeWhile_dropWhile_id rev_rev_ident)
  then have "m = rev (dropWhile isWhiteSpace (rev m)) @ rev (takeWhile isWhiteSpace (rev m))"
    by (simp only: rev_append)
  then have m: "m = String_trim s @ rev (takeWhile isWhiteSpace (rev m))"
    unfolding String_trim_def m_def .
  have a: "list_all isWhiteSpace (takeWhile isWhiteSpace s)"
    by (simp add: list_all_iff) (meson set_takeWhileD)
  have b: "list_all isWhiteSpace (rev (takeWhile isWhiteSpace (rev m)))"
    by (simp add: list_all_iff) (meson set_takeWhileD)
  from s m have "s = takeWhile isWhiteSpace s @ String_trim s @ rev (takeWhile isWhiteSpace (rev m))"
    by simp
  with a b show ?thesis by blast
qed

lemma String_trim_ends:
  assumes "String_trim s \<noteq> []"
  shows "\<not> isWhiteSpace (hd (String_trim s)) \<and> \<not> isWhiteSpace (last (String_trim s))"
proof -
  define m where "m = dropWhile isWhiteSpace s"
  define d where "d = dropWhile isWhiteSpace (rev m)"
  have t: "String_trim s = rev d" by (simp add: String_trim_def m_def d_def)
  with assms have d: "d \<noteq> []" by simp
  then have m: "m \<noteq> []" by (auto simp: d_def)
  have "\<not> isWhiteSpace (hd d)" using d unfolding d_def by (rule hd_dropWhile)
  then have l: "\<not> isWhiteSpace (last (String_trim s))"
    using d by (simp add: t last_rev)
  have "last d = last (rev m)"
    using d unfolding d_def
    by (metis append_take_drop_id last_appendR takeWhile_dropWhile_id)
  also have "\<dots> = hd m" using m by (simp add: last_rev)
  finally have "hd (String_trim s) = hd m" using d by (simp add: t hd_rev)
  moreover have "\<not> isWhiteSpace (hd m)" using m unfolding m_def by (rule hd_dropWhile)
  ultimately show ?thesis using l by simp
qed

text \<open>
  Claim C2. For a user (a non-empty e-mail that names no member inherited from
  \<^verbatim>\<open>Object.prototype\<close>, as every address does), \<open>punchIn\<close> fails with \<open>AlreadyPunchedIn\<close>
  exactly when today's record exists and has its punch-in set (a non-empty string),
  whatever its punch-out. When it does not fail so and the store accepts the write,
  the call succeeds, the storage holds the records it held with today's record of the
  user assigned afresh (punch-in at the current time, punch-in timestamp at the current
  instant, no punch-out, 0 working hours, empty notes), and this record is what a
  later read finds for today.
\<close>

theorem punchIn_already_or_creates:
  assumes "userEmail \<noteq> []"
    and "userEmail \<notin> set Object_prototype_members"
  shows "(fst (punchIn env userEmail storage) = Inl AlreadyPunchedIn) =
           (\<exists>r. getAttendanceRecord env storage userEmail None = Some r \<and> truthy (rec_punchIn r))
       \<and> (fst (punchIn env userEmail storage) \<noteq> Inl AlreadyPunchedIn \<longrightarrow> setItemOk env \<longrightarrow>
            fst (punchIn env userEmail storage) =
              Inr \<lparr>pi_punchInTime = getCurrentTime env, pi_date = getCurrentDate env\<rparr>
            \<and> snd (punchIn env userEmail storage) =
                Some ((getAttendanceRecords storage)(userEmail \<mapsto>
                  AList.update (getCurrentDate env)
                    \<lparr>rec_date = getCurrentDate env,
                     rec_punchIn = Some (getCurrentTime env),
                     rec_punchInTimestamp = Some (toISOString env),
                     rec_punchOut = None,
                     rec_punchOutTimestamp = None,
                     rec_workingHours = Some 0,
                     rec_notes = []\<rparr>
                    (case getAttendanceRecords storage userEmail of
                       None \<Rightarrow> [] | Some rs \<Rightarrow> rs)))
            \<and> getAttendanceRecord env (snd (punchIn env userEmail storage)) userEmail None =
                Some \<lparr>rec_date = getCurrentDate env,
                      rec_punchIn = Some (getCurrentTime env),
                      rec_punchInTimestamp = Some (toISOString env),
                      rec_punchOut = None,
                      rec_punchOutTimestamp = None,
                      rec_workingHours = Some 0,
                      rec_notes = []\<rparr>)
       \<and> (\<forall>v. truthy v = (\<exists>s. v = Some s \<and> s \<noteq> []))"
proof -
  have tr: "\<forall>v. truthy v = (\<exists>s. v = Some s \<and> s \<noteq> [])"
    by (simp add: truthy_def split: option.splits)
  then show ?thesis
    by (auto simp: punchIn_eq [OF assms(1)] not_inherited_member [OF assms(2)]
          getAttendanceRecord_after_update split: option.splits)
qed

theorem punchIn_already_or_creates_witness:
  "fst (punchIn sample_env ''ana@example.com'' sample_storage) = Inl AlreadyPunchedIn
   \<and> fst (punchIn sample_env ''di@example.com'' sample_storage) = Inl AlreadyPunchedIn
   \<and> fst (punchIn sample_env ''bo@example.com'' sample_storage) =
       Inr \<lparr>pi_punchInTime = ''17:30:00'', pi_date = ''2024-01-15''\<rparr>
   \<and> getAttendanceRecord sample_env (snd (punchIn sample_env ''bo@example.com'' sample_storage))
         ''bo@example.com'' None =
       Some \<lparr>rec_date = ''2024-01-15'',
             rec_punchIn = Some ''17:30:00'',
             rec_punchInTimestamp = Some ''2024-01-15T17:30:00.000Z'',
             rec_punchOut = None,
             rec_punchOutTimestamp = None,
             rec_workingHours = Some 0,
             rec_notes = []\<rparr>"
proof -
  have ne: "''ana@example.com'' \<noteq> []" "''di@example.com'' \<noteq> []" "''bo@example.com'' \<noteq> []"
    by simp_all
  have ni: "''ana@example.com'' \<notin> set Object_prototype_members"
    "''di@example.com'' \<notin> set Object_prototype_members"
    "''bo@example.com'' \<notin> set Object_prototype_members"
    by (simp_all add: address_not_inherited)
  note a = punchIn_already_or_creates [OF ne(1) ni(1), of sample_env sample_storage]
  note d = punchIn_already_or_creates [OF ne(2) ni(2), of sample_env sample_storage]
  note b = punchIn_already_or_creates [OF ne(3) ni(3), of sample_env sample_storage]
  have 1: "fst (punchIn sample_env ''ana@example.com'' sample_storage) = Inl AlreadyPunchedIn"
    using a by (simp add: sample_today open_record_def truthy_def)
  have 2: "fst (punchIn sample_env ''di@example.com'' sample_storage) = Inl AlreadyPunchedIn"
    using d by (simp add: sample_today closed_record_def truthy_def)
  have 3: "fst (punchIn sample_env ''bo@example.com'' sample_storage) \<noteq> Inl AlreadyPunchedIn"
    using b by (simp add: sample_today)
  have ok: "setItemOk sample_env" by simp
  note c = b [THEN conjunct2, THEN conjunct1, rule_format, OF 3 ok]
  from c [THEN conjunct1]
  have 4: "fst (punchIn sample_env ''bo@example.com'' sample_storage) =
       Inr \<lparr>pi_punchInTime = ''17:30:00'', pi_date = ''2024-01-15''\<rparr>"
    by simp
  from c [THEN conjunct2, THEN conjunct2]
  have 5: "getAttendanceRecord sample_env (snd (punchIn sample_env ''bo@example.com'' sample_storage))
         ''bo@example.com'' None =
       Some \<lparr>rec_date = ''2024-01-15'',
             rec_punchIn = Some ''17:30:00'',
             rec_punchInTimestamp = Some ''2024-01-15T17:30:00.000Z'',
             rec_punchOut = None,
             rec_punchOutTimestamp = None,
             rec_workingHours = Some 0,
             rec_notes = []\<rparr>"
    by simp
  from 1 2 4 5 show ?thesis by blast
qed

lemma punchOut_eq:
  assumes "userEmail \<noteq> []"
  shows "punchOut env userEmail notes storage =
     (case getAttendanceRecord env storage userEmail None of
        None \<Rightarrow> (Inl NoPunchInFound, storage)
      | Some r \<Rightarrow>
          if truthy (rec_punchOut r) then (Inl AlreadyPunchedOut, storage)
          else (case rec_punchIn r of
                  None \<Rightarrow> (Inl PunchInMissing, storage)
                | Some t \<Rightarrow>
                    if t = [] then (Inl PunchInMissing, storage)
                    else if setItemOk env then
                      (Inr \<lparr>po_punchOutTime = getCurrentTime env,
                            po_workingHours = calculateHours env t (getCurrentTime env),
                            po_formattedHours =
                              formatHours env (calculateHours env t (getCurrentTime env)),
                            po_date = getCurrentDate env\<rparr>,
                       Some ((getAttendanceRecords storage)(userEmail \<mapsto>
                         AList.update (getCurrentDate env)
                           (r\<lparr>rec_punchOut := Some (getCurrentTime env),
                              rec_punchOutTimestamp := Some (toISOString env),
                              rec_workingHours :=
                                jsonNumber (calculateHours env t (getCurrentTime env)),
                              rec_notes := String_trim notes\<rparr>)
                           (case getAttendanceRecords storage userEmail of
                              None \<Rightarrow> [] | Some rs \<Rightarrow> rs))))
                    else (Inl PersistenceFailure, storage)))"
  using assms
  by (simp add: punchOut_def getAttendanceRecord_today setAttendanceRecords_def Let_def
           split: option.splits)

text \<open>
  Claim C1. For a user (a non-empty e-mail), \<open>punchOut\<close> checks in this order: no
  record for today gives \<open>NoPunchInFound\<close>; a record whose punch-out is set gives
  \<open>AlreadyPunchedOut\<close>, whatever its punch-in; a record whose punch-in is absent gives
  \<open>PunchInMissing\<close>. Past the three checks it sets the punch-out time and timestamp,
  the working hours to \<open>calculateHours\<close> of the punch-in and the current time, and the
  notes to the trimmed argument, and hands the records to the store; when the store
  accepts the write the call succeeds, returns the hours raw and formatted, and the
  updated record is what a later read finds for today. (A number that is \<^verbatim>\<open>NaN\<close> is
  stored as \<^verbatim>\<open>null\<close>, which is what \<open>jsonNumber\<close> says.) The trimmed notes are the
  notes without a run of white space before them and a run of white space after them,
  and they neither begin nor end with white space; white space is the code units
  that \<^verbatim>\<open>String.prototype.trim\<close> removes. A punch time is set when it is a non-empty
  string.
\<close>

theorem punchOut_checks_in_order:
  assumes "userEmail \<noteq> []"
  shows "(getAttendanceRecord env storage userEmail None = None \<longrightarrow>
            punchOut env userEmail notes storage = (Inl NoPunchInFound, storage))
       \<and> (getAttendanceRecord env storage userEmail None = Some r \<longrightarrow>
            truthy (rec_punchOut r) \<longrightarrow>
            punchOut env userEmail notes storage = (Inl AlreadyPunchedOut, storage))
       \<and> (getAttendanceRecord env storage userEmail None = Some r \<longrightarrow>
            \<not> truthy (rec_punchOut r) \<longrightarrow> \<not> truthy (rec_punchIn r) \<longrightarrow>
            punchOut env userEmail notes storage = (Inl PunchInMissing, storage))
       \<and> (getAttendanceRecord env storage userEmail None = Some r \<longrightarrow>
            \<not> truthy (rec_punchOut r) \<longrightarrow> rec_punchIn r = Some t \<longrightarrow> t \<noteq> [] \<longrightarrow>
            getAttendanceRecords storage userEmail = Some userRecords \<longrightarrow>
            setItemOk env \<longrightarrow>
            punchOut env userEmail notes storage =
              (Inr \<lparr>po_punchOutTime = getCurrentTime env,
                    po_workingHours = calculateHours env t (getCurrentTime env),
                    po_formattedHours =
                      formatHours env (calculateHours env t (getCurrentTime env)),
                    po_date = getCurrentDate env\<rparr>,
               Some ((getAttendanceRecords storage)(userEmail \<mapsto>
                 AList.update (getCurrentDate env)
                   (r\<lparr>rec_punchOut := Some (getCurrentTime env),
                      rec_punchOutTimestamp := Some (toISOString env),
                      rec_workingHours := jsonNumber (calculateHours env t (getCurrentTime env)),
                      rec_notes := String_trim notes\<rparr>)
                   userRecords)))
            \<and> getAttendanceRecord env (snd (punchOut env userEmail notes storage))
                  userEmail None =
                Some (r\<lparr>rec_punchOut := Some (getCurrentTime env),
                        rec_punchOutTimestamp := Some (toISOString env),
                        rec_workingHours := jsonNumber (calculateHours env t (getCurrentTime env)),
                        rec_notes := String_trim notes\<rparr>))
       \<and> (\<exists>a b. notes = a @ String_trim notes @ b
              \<and> set a \<subseteq> {0x09, 0x0A, 0x0B, 0x0C, 0x0D, 0x20, 0xA0, 0x1680, 0x2028, 0x2029,
                         0x202F, 0x205F, 0x3000, 0xFEFF} \<union> {0x2000..0x200A}
              \<and> set b \<subseteq> {0x09, 0x0A, 0x0B, 0x0C, 0x0D, 0x20, 0xA0, 0x1680, 0x2028, 0x2029,
                         0x202F, 0x205F, 0x3000, 0xFEFF} \<union> {0x2000..0x200A})
       \<and> (String_trim notes \<noteq> [] \<longrightarrow>
            hd (String_trim notes) \<notin> {0x09, 0x0A, 0x0B, 0x0C, 0x0D, 0x20, 0xA0, 0x1680, 0x2028,
                 0x2029, 0x202F, 0x205F, 0x3000, 0xFEFF} \<union> {0x2000..0x200A}
            \<and> last (String_trim notes) \<notin> {0x09, 0x0A, 0x0B, 0x0C, 0x0D, 0x20, 0xA0, 0x1680,
                 0x2028, 0x2029, 0x202F, 0x205F, 0x3000, 0xFEFF} \<union> {0x2000..0x200A})
       \<and> (\<forall>h. jsonNumber (Num h) = Some h) \<and> jsonNumber NaN = None
       \<and> (\<forall>v. truthy v = (\<exists>s. v = Some s \<and> s \<noteq> []))"
proof -
  have checks: "(getAttendanceRecord env storage userEmail None = None \<longrightarrow>
            punchOut env userEmail notes storage = (Inl NoPunchInFound, storage))
       \<and> (getAttendanceRecord env storage userEmail None = Some r \<longrightarrow>
            truthy (rec_punchOut r) \<longrightarrow>
            punchOut env userEmail notes storage = (Inl AlreadyPunchedOut, storage))
       \<and> (getAttendanceRecord env storage userEmail None = Some r \<longrightarrow>
            \<not> truthy (rec_punchOut r) \<longrightarrow> \<not> truthy (rec_punchIn r) \<longrightarrow>
            punchOut env userEmail notes storage = (Inl PunchInMissing, storage))
       \<and> (getAttendanceRecord env storage userEmail None = Some r \<longrightarrow>
            \<not> truthy (rec_punchOut r) \<longrightarrow> rec_punchIn r = Some t \<longrightarrow> t \<noteq> [] \<longrightarrow>
            getAttendanceRecords storage userEmail = Some userRecords \<longrightarrow>
            setItemOk env \<longrightarrow>
            punchOut env userEmail notes storage =
              (Inr \<lparr>po_punchOutTime = getCurrentTime env,
                    po_workingHours = calculateHours env t (getCurrentTime env),
                    po_formattedHours =
                      formatHours env (calculateHours env t (getCurrentTime env)),
                    po_date = getCurrentDate env\<rparr>,
               Some ((getAttendanceRecords storage)(userEmail \<mapsto>
                 AList.update (getCurrentDate env)
                   (r\<lparr>rec_punchOut := Some (getCurrentTime env),
                      rec_punchOutTimestamp := Some (toISOString env),
                      rec_workingHours := jsonNumber (calculateHours env t (getCurrentTime env)),
                      rec_notes := String_trim notes\<rparr>)
                   userRecords)))
            \<and> getAttendanceRecord env (snd (punchOut env userEmail notes storage))
                  userEmail None =
                Some (r\<lparr>rec_punchOut := Some (getCurrentTime env),
                        rec_punchOutTimestamp := Some (toISOString env),
                        rec_workingHours := jsonNumber (calculateHours env t (getCurrentTime env)),
                        rec_notes := String_trim notes\<rparr>))"
    by (simp add: punchOut_eq [OF assms] getAttendanceRecord_after_update truthy_def
           split: option.splits)
  from String_trim_decomp [of "notes"] obtain a b where
    ab: "notes = a @ String_trim notes @ b" "list_all isWhiteSpace a" "list_all isWhiteSpace b"
    by blast
  have trimmed: "\<exists>a b. notes = a @ String_trim notes @ b
              \<and> set a \<subseteq> {0x09, 0x0A, 0x0B, 0x0C, 0x0D, 0x20, 0xA0, 0x1680, 0x2028, 0x2029,
                         0x202F, 0x205F, 0x3000, 0xFEFF} \<union> {0x2000..0x200A}
              \<and> set b \<subseteq> {0x09, 0x0A, 0x0B, 0x0C, 0x0D, 0x20, 0xA0, 0x1680, 0x2028, 0x2029,
                         0x202F, 0x205F, 0x3000, 0xFEFF} \<union> {0x2000..0x200A}"
    using ab by (intro exI [of _ a] exI [of _ b]) (simp add: list_all_iff isWhiteSpace_iff subset_iff)
  have ends: "String_trim notes \<noteq> [] \<longrightarrow>
            hd (String_trim notes) \<notin> {0x09, 0x0A, 0x0B, 0x0C, 0x0D, 0x20, 0xA0, 0x1680, 0x2028,
                 0x2029, 0x202F, 0x205F, 0x3000, 0xFEFF} \<union> {0x2000..0x200A}
            \<and> last (String_trim notes) \<notin> {0x09, 0x0A, 0x0B, 0x0C, 0x0D, 0x20, 0xA0, 0x1680,
                 0x2028, 0x2029, 0x202F, 0x205F, 0x3000, 0xFEFF} \<union> {0x2000..0x200A}"
    using String_trim_ends [of "notes"] by (simp only: isWhiteSpace_iff) blast
  have json: "(\<forall>h. jsonNumber (Num h) = Some h) \<and> jsonNumber NaN = None"
    by (simp add: jsonNumber_def)
  have tr: "\<forall>v. truthy v = (\<exists>s. v = Some s \<and> s \<noteq> [])"
    by (simp add: truthy_def split: option.splits)
  from checks trimmed ends json tr show ?thesis by (intro conjI) blast+
qed

theorem punchOut_checks_in_order_witness:
  "punchOut sample_env ''zed@example.com'' (ascii ''bye'') sample_storage
     = (Inl NoPunchInFound, sample_storage)
   \<and> punchOut sample_env ''cy@example.com'' (ascii ''bye'') sample_storage
     = (Inl AlreadyPunchedOut, sample_storage)
   \<and> punchOut sample_env ''ed@example.com'' (ascii ''bye'') sample_storage
     = (Inl PunchInMissing, sample_storage)
   \<and> fst (punchOut sample_env ''ana@example.com'' sample_notes sample_storage) =
       Inr \<lparr>po_punchOutTime = ''17:30:00'',
             po_workingHours = Num (17 / 2),
             po_formattedHours = ''8h 30m'',
             po_date = ''2024-01-15''\<rparr>
   \<and> getAttendanceRecord sample_env
         (snd (punchOut sample_env ''ana@example.com'' sample_notes sample_storage))
         ''ana@example.com'' None =
       Some \<lparr>rec_date = ''2024-01-15'',
             rec_punchIn = Some ''09:00:00'',
             rec_punchInTimestamp = Some ''2024-01-15T09:00:00.000Z'',
             rec_punchOut = Some ''17:30:00'',
             rec_punchOutTimestamp = Some ''2024-01-15T17:30:00.000Z'',
             rec_workingHours = Some (17 / 2),
             rec_notes = ascii ''left early''\<rparr>"
proof -
  have 1: "punchOut sample_env ''zed@example.com'' (ascii ''bye'') sample_storage
      = (Inl NoPunchInFound, sample_storage)"
    using punchOut_checks_in_order
        [where userEmail = "''zed@example.com''" and env = sample_env and storage = sample_storage]
    by (simp add: sample_today)
  have 2: "punchOut sample_env ''cy@example.com'' (ascii ''bye'') sample_storage
      = (Inl AlreadyPunchedOut, sample_storage)"
    using punchOut_checks_in_order
        [where userEmail = "''cy@example.com''" and env = sample_env and storage = sample_storage
           and r = "orphan_record ''2024-01-15''"]
    by (simp add: sample_today orphan_record_def truthy_def)
  have 3: "punchOut sample_env ''ed@example.com'' (ascii ''bye'') sample_storage
      = (Inl PunchInMissing, sample_storage)"
    using punchOut_checks_in_order
        [where userEmail = "''ed@example.com''" and env = sample_env and storage = sample_storage
           and r = blank_record]
    by (simp add: sample_today blank_record_def truthy_def)
  have ne: "''ana@example.com'' \<noteq> []" by simp
  have h1: "getAttendanceRecord sample_env sample_storage ''ana@example.com'' None
      = Some open_record"
    by (rule sample_today)
  have h2: "\<not> truthy (rec_punchOut open_record)"
    by (simp add: open_record_def truthy_def)
  have h3: "rec_punchIn open_record = Some ''09:00:00''"
    by (simp add: open_record_def)
  have h4: "''09:00:00'' \<noteq> []" by simp
  have h6: "setItemOk sample_env" by simp
  note 4 = punchOut_checks_in_order
    [OF ne, THEN conjunct2, THEN conjunct2, THEN conjunct2, THEN conjunct1, rule_format,
     OF h1 h2 h3 h4 sample_records h6, of sample_notes]
  from 4 [THEN conjunct1]
  have 5: "fst (punchOut sample_env ''ana@example.com'' sample_notes sample_storage) =
       Inr \<lparr>po_punchOutTime = ''17:30:00'',
             po_workingHours = Num (17 / 2),
             po_formattedHours = ''8h 30m'',
             po_date = ''2024-01-15''\<rparr>"
    by (simp add: sample_hours format_sample)
  from 4 [THEN conjunct2]
  have 6: "getAttendanceRecord sample_env
         (snd (punchOut sample_env ''ana@example.com'' sample_notes sample_storage))
         ''ana@example.com'' None =
       Some \<lparr>rec_date = ''2024-01-15'',
             rec_punchIn = Some ''09:00:00'',
             rec_punchInTimestamp = Some ''2024-01-15T09:00:00.000Z'',
             rec_punchOut = Some ''17:30:00'',
             rec_punchOutTimestamp = Some ''2024-01-15T17:30:00.000Z'',
             rec_workingHours = Some (17 / 2),
             rec_notes = ascii ''left early''\<rparr>"
    by (simp add: open_record_def sample_hours jsonNumber_def trim_sample)
  from 1 2 3 5 6 show ?thesis by blast
qed

text \<open>
  Claim C8. When the store refuses the write, \<open>punchIn\<close> and \<open>punchOut\<close> return a
  failure and leave the storage as it was, so that a later read sees nothing of the
  update; the failure is \<open>PersistenceFailure\<close> whenever the call got as far as the
  write (it is a user, and none of the state checks failed).
\<close>

theorem failed_write_leaves_storage:
  assumes "\<not> setItemOk env"
  shows "(\<exists>e. punchIn env userEmail storage = (Inl e, storage))
       \<and> (\<exists>e. punchOut env userEmail notes storage = (Inl e, storage))
       \<and> (userEmail \<noteq> [] \<longrightarrow> fst (punchIn env userEmail storage) \<noteq> Inl AlreadyPunchedIn \<longrightarrow>
            punchIn env userEmail storage = (Inl PersistenceFailure, storage))
       \<and> (userEmail \<noteq> [] \<longrightarrow>
            fst (punchOut env userEmail notes storage)
              \<notin> {Inl NoPunchInFound, Inl AlreadyPunchedOut, Inl PunchInMissing} \<longrightarrow>
            punchOut env userEmail notes storage = (Inl PersistenceFailure, storage))"
proof -
  have 1: "\<exists>e. punchIn env userEmail storage = (Inl e, storage)"
  proof (cases "userEmail = []")
    case True
    then show ?thesis by (simp add: punchIn_def)
  next
    case False
    with assms show ?thesis by (simp add: punchIn_eq)
  qed
  have 2: "\<exists>e. punchOut env userEmail notes storage = (Inl e, storage)"
  proof (cases "userEmail = []")
    case True
    then show ?thesis by (simp add: punchOut_def)
  next
    case False
    with assms show ?thesis by (simp add: punchOut_eq split: option.splits)
  qed
  have 3: "userEmail \<noteq> [] \<longrightarrow> fst (punchIn env userEmail storage) \<noteq> Inl AlreadyPunchedIn \<longrightarrow>
            punchIn env userEmail storage = (Inl PersistenceFailure, storage)"
    using assms by (simp add: punchIn_eq)
  have 4: "userEmail \<noteq> [] \<longrightarrow>
            fst (punchOut env userEmail notes storage)
              \<notin> {Inl NoPunchInFound, Inl AlreadyPunchedOut, Inl PunchInMissing} \<longrightarrow>
            punchOut env userEmail notes storage = (Inl PersistenceFailure, storage)"
    using assms by (simp add: punchOut_eq split: option.splits)
  from 1 2 3 4 show ?thesis by blast
qed

theorem failed_write_leaves_storage_witness:
  "punchIn full_env ''bo@example.com'' sample_storage = (Inl PersistenceFailure, sample_storage)
   \<and> punchOut full_env ''ana@example.com'' (ascii ''bye'') sample_storage
       = (Inl PersistenceFailure, sample_storage)"
proof -
  have f: "\<not> setItemOk full_env" by simp
  note w = failed_write_leaves_storage [OF f, of _ sample_storage]
  have 1: "fst (punchIn full_env ''bo@example.com'' sample_storage) \<noteq> Inl AlreadyPunchedIn"
    by (simp add: punchIn_eq sample_today)
  have 2: "fst (punchOut full_env ''ana@example.com'' (ascii ''bye'') sample_storage)
      \<notin> {Inl NoPunchInFound, Inl AlreadyPunchedOut, Inl PunchInMissing}"
    by (simp add: punchOut_eq sample_today open_record_def truthy_def)
  from w [of "''bo@example.com''" "ascii ''bye''"] 1
  have "punchIn full_env ''bo@example.com'' sample_storage = (Inl PersistenceFailure, sample_storage)"
    by simp
  moreover from w [of "''ana@example.com''" "ascii ''bye''"] 2
  have "punchOut full_env ''ana@example.com'' (ascii ''bye'') sample_storage
       = (Inl PersistenceFailure, sample_storage)"
    by simp
  ultimately show ?thesis by simp
qed

text \<open>
  Claim C10. When today's record exists without a punch-in, \<open>punchIn\<close> of a user
  succeeds (the store accepting the write) and today's record becomes a fresh
  punch-in record: whatever punch-out, punch-out timestamp, working hours and notes
  the old record held are gone.
\<close>

theorem punchIn_replaces_record_without_punchIn:
  assumes "userEmail \<noteq> []"
    and "getAttendanceRecord env storage userEmail None = Some old"
    and "\<not> truthy (rec_punchIn old)"
    and "setItemOk env"
  shows "fst (punchIn env userEmail storage) =
           Inr \<lparr>pi_punchInTime = getCurrentTime env, pi_date = getCurrentDate env\<rparr>
       \<and> getAttendanceRecord env (snd (punchIn env userEmail storage)) userEmail None =
           Some \<lparr>rec_date = getCurrentDate env,
                 rec_punchIn = Some (getCurrentTime env),
                 rec_punchInTimestamp = Some (toISOString env),
                 rec_punchOut = None,
                 rec_punchOutTimestamp = None,
                 rec_workingHours = Some 0,
                 rec_notes = []\<rparr>"
  using assms(2-4) not_inherited_record [OF assms(2)]
  by (simp add: punchIn_eq [OF assms(1)] getAttendanceRecord_after_update)

theorem punchIn_replaces_record_without_punchIn_witness:
  "getAttendanceRecord sample_env sample_storage ''cy@example.com'' None =
     Some \<lparr>rec_date = ''2024-01-15'',
           rec_punchIn = None,
           rec_punchInTimestamp = None,
           rec_punchOut = Some ''17:00:00'',
           rec_punchOutTimestamp = Some ''2024-01-16T17:00:00.000Z'',
           rec_workingHours = Some 5,
           rec_notes = ascii ''imported''\<rparr>
   \<and> fst (punchIn sample_env ''cy@example.com'' sample_storage) =
       Inr \<lparr>pi_punchInTime = ''17:30:00'', pi_date = ''2024-01-15''\<rparr>
   \<and> getAttendanceRecord sample_env (snd (punchIn sample_env ''cy@example.com'' sample_storage))
         ''cy@example.com'' None =
       Some \<lparr>rec_date = ''2024-01-15'',
             rec_punchIn = Some ''17:30:00'',
             rec_punchInTimestamp = Some ''2024-01-15T17:30:00.000Z'',
             rec_punchOut = None,
             rec_punchOutTimestamp = None,
             rec_workingHours = Some 0,
             rec_notes = []\<rparr>"
proof -
  have u: "''cy@example.com'' \<noteq> []" by simp
  have r: "getAttendanceRecord sample_env sample_storage ''cy@example.com'' None
      = Some (orphan_record ''2024-01-15'')"
    by (rule sample_today)
  have n: "\<not> truthy (rec_punchIn (orphan_record ''2024-01-15''))"
    by (simp add: orphan_record_def truthy_def)
  have ok: "setItemOk sample_env" by simp
  from punchIn_replaces_record_without_punchIn [OF u r n ok] r
  show ?thesis by (simp add: orphan_record_def)
qed


section \<open>Properties of history and aggregation\<close>

lemma history_loop_eq:
  "history_loop env start end rs history =
     history @ map (\<lambda>(date, record). history_entry_of env date record)
       (filter (\<lambda>(date, record).
          Date_ge (Date_value env date) start \<and> Date_le (Date_value env date) end) rs)"
proof (induction rs arbitrary: history)
  case Nil
  show ?case by simp
next
  case (Cons p rs)
  obtain d r where p: "p = (d, r)" by (cases p)
  show ?case unfolding p by (simp add: Cons.IH Let_def)
qed

lemma mset_insert_by: "mset (insert_by cmp x xs) = add_mset x (mset xs)"
  by (induction xs) auto

lemma mset_Array_sort: "mset (Array_sort cmp xs) = mset xs"
  by (induction xs) (auto simp: Array_sort_def mset_insert_by)

lemma set_Array_sort: "set (Array_sort cmp xs) = set xs"
  using mset_Array_sort [of cmp xs] by (metis set_mset_mset)

lemma by_date_desc_valid:
  assumes "Date_value env (h_date a) \<noteq> None" and "Date_value env (h_date b) \<noteq> None"
  shows "by_date_desc env a b = time_of env b - time_of env a"
  using assms by (auto simp: by_date_desc_def time_of_def)

lemma sorted_insert_by:
  assumes "\<forall>h \<in> set (x # xs). Date_value env (h_date h) \<noteq> None"
    and "sorted_wrt (\<lambda>a b. time_of env b \<le> time_of env a) xs"
  shows "sorted_wrt (\<lambda>a b. time_of env b \<le> time_of env a) (insert_by (by_date_desc env) x xs)"
  using assms
proof (induction xs)
  case Nil
  then show ?case by simp
next
  case (Cons y ys)
  have c: "by_date_desc env x y = time_of env y - time_of env x"
    using Cons.prems(1) by (intro by_date_desc_valid) auto
  show ?case
  proof (cases "by_date_desc env x y \<le> 0")
    case True
    with c Cons.prems(2) show ?thesis by fastforce
  next
    case False
    have "sorted_wrt (\<lambda>a b. time_of env b \<le> time_of env a) (insert_by (by_date_desc env) x ys)"
      using Cons by auto
    moreover have "\<forall>h \<in> set (insert_by (by_date_desc env) x ys). time_of env h \<le> time_of env y"
      using c False Cons.prems(2)
      by (auto simp: set_mset_mset [symmetric] mset_insert_by simp del: set_mset_mset)
    ultimately show ?thesis using False by simp
  qed
qed

lemma sorted_Array_sort:
  assumes "\<forall>h \<in> set xs. Date_value env (h_date h) \<noteq> None"
  shows "sorted_wrt (\<lambda>a b. time_of env b \<le> time_of env a) (Array_sort (by_date_desc env) xs)"
  using assms
proof (induction xs)
  case Nil
  then show ?case by (simp add: Array_sort_def)
next
  case (Cons x xs)
  have "sorted_wrt (\<lambda>a b. time_of env b \<le> time_of env a) (Array_sort (by_date_desc env) xs)"
    using Cons by simp
  moreover have "\<forall>h \<in> set (x # Array_sort (by_date_desc env) xs). Date_value env (h_date h) \<noteq> None"
    using Cons.prems by (simp add: set_Array_sort)
  ultimately have "sorted_wrt (\<lambda>a b. time_of env b \<le> time_of env a)
      (insert_by (by_date_desc env) x (Array_sort (by_date_desc env) xs))"
    by (intro sorted_insert_by)
  then show ?case by (simp add: Array_sort_def)
qed

lemma mset_getAttendanceHistory:
  "mset (getAttendanceHistory env storage userEmail startDate endDate) =
     mset (map (\<lambda>(date, record). history_entry_of env date record)
       (filter (\<lambda>(date, record). in_range env startDate endDate date)
          (case getAttendanceRecords storage userEmail of None \<Rightarrow> [] | Some rs \<Rightarrow> rs)))"
  by (simp add: getAttendanceHistory_def Let_def mset_Array_sort history_loop_eq in_range_def)

lemma in_range_iff:
  "in_range env startDate endDate date =
     (\<exists>a b t. Date_value env startDate = Some a \<and> Date_value env endDate = Some b
        \<and> Date_value env date = Some t \<and> a \<le> t \<and> t \<le> b)"
  by (auto simp: in_range_def Date_ge_def Date_le_def split: option.splits)

lemma h_date_history_entry_of [simp]: "h_date (history_entry_of env date record) = date"
  by (simp add: history_entry_of_def)

lemma history_member:
  assumes "h \<in> set (getAttendanceHistory env storage userEmail startDate endDate)"
  shows "\<exists>record userRecords.
           getAttendanceRecords storage userEmail = Some userRecords
         \<and> (h_date h, record) \<in> set userRecords
         \<and> h = history_entry_of env (h_date h) record
         \<and> in_range env startDate endDate (h_date h)"
proof -
  have "h \<in># mset (getAttendanceHistory env storage userEmail startDate endDate)"
    using assms by simp
  then have "h \<in> set (map (\<lambda>(date, record). history_entry_of env date record)
       (filter (\<lambda>(date, record). in_range env startDate endDate date)
          (case getAttendanceRecords storage userEmail of None \<Rightarrow> [] | Some rs \<Rightarrow> rs)))"
    unfolding mset_getAttendanceHistory by simp
  then obtain d r where dr: "h = history_entry_of env d r"
      "in_range env startDate endDate d"
      "(d, r) \<in> set (case getAttendanceRecords storage userEmail of None \<Rightarrow> [] | Some rs \<Rightarrow> rs)"
    by auto
  from dr(3) obtain rs where rs: "getAttendanceRecords storage userEmail = Some rs"
      "(d, r) \<in> set rs"
    by (cases "getAttendanceRecords storage userEmail") auto
  from dr(1) have d: "h_date h = d" by simp
  show ?thesis
    unfolding d using dr(1,2) rs by (intro exI [of _ r] exI [of _ rs]) simp
qed

text \<open>
  Claim C5. Every entry of \<open>getAttendanceHistory\<close> is built from a record that the
  store holds for the user under the entry's date, and that date lies in the range:
  the two bounds and the date are valid dates and the date's time value is between
  those of the bounds, both included. The entries are in descending order of their
  dates' time values.
\<close>

theorem getAttendanceHistory_filtered_sorted:
  "(\<forall>h \<in> set (getAttendanceHistory env storage userEmail startDate endDate).
      \<exists>record userRecords a b t.
          getAttendanceRecords storage userEmail = Some userRecords
        \<and> (h_date h, record) \<in> set userRecords
        \<and> h = history_entry_of env (h_date h) record
        \<and> Date_value env startDate = Some a \<and> Date_value env endDate = Some b
        \<and> Date_value env (h_date h) = Some t \<and> a \<le> t \<and> t \<le> b)
   \<and> (\<exists>ts. map (\<lambda>h. Date_value env (h_date h))
              (getAttendanceHistory env storage userEmail startDate endDate) = map Some ts
          \<and> sorted_wrt (\<ge>) ts)"
proof (intro conjI ballI)
  fix h
  assume "h \<in> set (getAttendanceHistory env storage userEmail startDate endDate)"
  from history_member [OF this]
  show "\<exists>record userRecords a b t.
          getAttendanceRecords storage userEmail = Some userRecords
        \<and> (h_date h, record) \<in> set userRecords
        \<and> h = history_entry_of env (h_date h) record
        \<and> Date_value env startDate = Some a \<and> Date_value env endDate = Some b
        \<and> Date_value env (h_date h) = Some t \<and> a \<le> t \<and> t \<le> b"
    unfolding in_range_iff by blast
next
  let ?hist = "getAttendanceHistory env storage userEmail startDate endDate"
  let ?loop = "history_loop env (Date_value env startDate) (Date_value env endDate)
      (case getAttendanceRecords storage userEmail of None \<Rightarrow> [] | Some rs \<Rightarrow> rs) []"
  have valid: "\<forall>h \<in> set ?hist. Date_value env (h_date h) \<noteq> None"
    using history_member [of _ env storage userEmail startDate endDate]
    unfolding in_range_iff by fastforce
  have hist: "?hist = Array_sort (by_date_desc env) ?loop"
    by (simp add: getAttendanceHistory_def Let_def)
  have "\<forall>h \<in> set ?loop. Date_value env (h_date h) \<noteq> None"
    using valid unfolding hist set_Array_sort .
  then have "sorted_wrt (\<lambda>a b. time_of env b \<le> time_of env a) ?hist"
    unfolding hist by (rule sorted_Array_sort)
  then have "sorted_wrt (\<ge>) (map (time_of env) ?hist)"
    by (simp add: sorted_wrt_map)
  moreover have "map (\<lambda>h. Date_value env (h_date h)) ?hist = map Some (map (time_of env) ?hist)"
    using valid by (auto simp: time_of_def)
  ultimately show "\<exists>ts. map (\<lambda>h. Date_value env (h_date h)) ?hist = map Some ts
      \<and> sorted_wrt (\<ge>) ts"
    by blast
qed

theorem getAttendanceHistory_filtered_sorted_witness:
  "map h_date (getAttendanceHistory sample_env sample_storage ''ana@example.com''
       ''2024-01-14'' ''2024-01-20'') = [''2024-01-15'', ''2024-01-14'']
   \<and> (\<exists>record userRecords a b t.
          getAttendanceRecords sample_storage ''ana@example.com'' = Some userRecords
        \<and> (''2024-01-14'', record) \<in> set userRecords
        \<and> history_entry_of sample_env ''2024-01-14'' closed_record
            = history_entry_of sample_env ''2024-01-14'' record
        \<and> Date_value sample_env ''2024-01-14'' = Some a
        \<and> Date_value sample_env ''2024-01-20'' = Some b
        \<and> Date_value sample_env ''2024-01-14'' = Some t \<and> a \<le> t \<and> t \<le> b)"
proof -
  let ?hist = "getAttendanceHistory sample_env sample_storage ''ana@example.com''
       ''2024-01-14'' ''2024-01-20''"
  have dates: "map h_date ?hist = [''2024-01-15'', ''2024-01-14'']"
    by code_simp
  have mem: "history_entry_of sample_env ''2024-01-14'' closed_record \<in> set ?hist"
    by code_simp
  from getAttendanceHistory_filtered_sorted
         [of sample_env sample_storage "''ana@example.com''" "''2024-01-14''" "''2024-01-20''"]
  have "\<forall>h \<in> set ?hist. \<exists>record userRecords a b t.
          getAttendanceRecords sample_storage ''ana@example.com'' = Some userRecords
        \<and> (h_date h, record) \<in> set userRecords
        \<and> h = history_entry_of sample_env (h_date h) record
        \<and> Date_value sample_env ''2024-01-14'' = Some a
        \<and> Date_value sample_env ''2024-01-20'' = Some b
        \<and> Date_value sample_env (h_date h) = Some t \<and> a \<le> t \<and> t \<le> b"
    by (rule conjunct1)
  from bspec [OF this mem] dates show ?thesis by simp
qed

lemma weekly_loop_eq:
  "weekly_loop env hs (t, w, p) =
     (foldl (\<lambda>total x. roundDouble env (total + x)) t
        (map h_workingHours (filter (\<lambda>h. truthy (h_punchIn h) \<and> 0 < h_workingHours h) hs)),
      w + length (filter (\<lambda>h. truthy (h_punchIn h) \<and> 0 < h_workingHours h) hs),
      p + length (filter (\<lambda>h. truthy (h_punchIn h)) hs))"
  by (induction hs arbitrary: t w p) auto

lemma monthly_loop_eq:
  "monthly_loop env hs (t, w, p, f) =
     (foldl (\<lambda>total x. roundDouble env (total + x)) t
        (map h_workingHours (filter (\<lambda>h. truthy (h_punchIn h) \<and> 0 < h_workingHours h) hs)),
      w + length (filter (\<lambda>h. truthy (h_punchIn h) \<and> 0 < h_workingHours h) hs),
      p + length (filter (\<lambda>h. truthy (h_punchIn h)) hs),
      f + length (filter (\<lambda>h. truthy (h_punchIn h) \<and> 0 < h_workingHours h
                               \<and> 8 \<le> h_workingHours h) hs))"
  by (induction hs arbitrary: t w p f) auto

text \<open>Where the rounding changes nothing, the sum of doubles is the sum.\<close>

lemma foldl_plus_sum_list: "foldl (\<lambda>total x. total + x) a xs = a + sum_list xs"
  for a :: rat
  by (induction xs arbitrary: a) (simp_all add: add.assoc)

lemma sum_doubles_exact:
  assumes "\<And>x. roundDouble env x = x"
  shows "sum_doubles env xs = sum_list xs"
  by (simp add: sum_doubles_def assms foldl_plus_sum_list)

lemma length_filter_conj_le: "length (filter (\<lambda>x. P x \<and> Q x) xs) \<le> length (filter P xs)"
  by (induction xs) auto

text \<open>
  Claim C4, as the code has it. In a weekly and in a monthly summary the days worked
  are the entries of the history with a punch-in and more than 0 working hours (the
  test on the hours is made only under the test on the punch-in); the total hours are
  the sum of the working hours over exactly these entries, as the doubles add up; the
  days present are the entries with a punch-in, so that they are at least the days
  worked; and the average is the total divided by the days worked, a double, and 0
  when no day was worked.
\<close>

theorem summary_aggregates:
  "w_totalHours (getWeeklySummary env storage userEmail weekStartDate) =
     sum_doubles env (map h_workingHours
       (filter (\<lambda>h. truthy (h_punchIn h) \<and> 0 < h_workingHours h)
          (w_records (getWeeklySummary env storage userEmail weekStartDate))))
   \<and> w_daysWorked (getWeeklySummary env storage userEmail weekStartDate) =
     length (filter (\<lambda>h. truthy (h_punchIn h) \<and> 0 < h_workingHours h)
          (w_records (getWeeklySummary env storage userEmail weekStartDate)))
   \<and> w_daysPresent (getWeeklySummary env storage userEmail weekStartDate) =
     length (filter (\<lambda>h. truthy (h_punchIn h))
          (w_records (getWeeklySummary env storage userEmail weekStartDate)))
   \<and> w_daysWorked (getWeeklySummary env storage userEmail weekStartDate)
       \<le> w_daysPresent (getWeeklySummary env storage userEmail weekStartDate)
   \<and> w_averageHours (getWeeklySummary env storage userEmail weekStartDate) =
     (if 0 < w_daysWorked (getWeeklySummary env storage userEmail weekStartDate)
      then roundDouble env
             (w_totalHours (getWeeklySummary env storage userEmail weekStartDate)
              / of_nat (w_daysWorked (getWeeklySummary env storage userEmail weekStartDate)))
      else 0)
   \<and> m_totalHours (getMonthlySummary env storage userEmail year month) =
     sum_doubles env (map h_workingHours
       (filter (\<lambda>h. truthy (h_punchIn h) \<and> 0 < h_workingHours h)
          (m_records (getMonthlySummary env storage userEmail year month))))
   \<and> m_daysWorked (getMonthlySummary env storage userEmail year month) =
     length (filter (\<lambda>h. truthy (h_punchIn h) \<and> 0 < h_workingHours h)
          (m_records (getMonthlySummary env storage userEmail year month)))
   \<and> m_daysPresent (getMonthlySummary env storage userEmail year month) =
     length (filter (\<lambda>h. truthy (h_punchIn h))
          (m_records (getMonthlySummary env storage userEmail year month)))
   \<and> m_daysWorked (getMonthlySummary env storage userEmail year month)
       \<le> m_daysPresent (getMonthlySummary env storage userEmail year month)
   \<and> m_averageHours (getMonthlySummary env storage userEmail year month) =
     (if 0 < m_daysWorked (getMonthlySummary env storage userEmail year month)
      then roundDouble env
             (m_totalHours (getMonthlySummary env storage userEmail year month)
              / of_nat (m_daysWorked (getMonthlySummary env storage userEmail year month)))
      else 0)"
  by (simp add: getWeeklySummary_def getMonthlySummary_def Let_def weekly_loop_eq
        monthly_loop_eq sum_doubles_def length_filter_conj_le split: prod.splits)

text \<open>
  Claim C4 describes the days worked as the entries with more than 0 working hours.
  A record with hours and no punch-in is not counted: the user whose two records of
  the week hold 5 hours each and no punch-in has 0 days worked and 0 total hours,
  while two entries of the history have more than 0 hours, 10 in sum.
\<close>

theorem daysWorked_counterexample:
  "w_daysWorked orphan_week = 0
   \<and> length (filter hours_positive (w_records orphan_week)) = 2
   \<and> w_daysWorked orphan_week \<noteq> length (filter hours_positive (w_records orphan_week))
   \<and> w_totalHours orphan_week = 0
   \<and> sum_list (map h_workingHours (filter hours_positive (w_records orphan_week))) = 10
   \<and> w_totalHours orphan_week
       \<noteq> sum_list (map h_workingHours (filter hours_positive (w_records orphan_week)))"
  by code_simp

text \<open>When every entry with hours has a punch-in, as every record that \<open>punchOut\<close>
  completes has, the days worked are the entries with more than 0 hours.\<close>

lemma weekly_daysWorked_well_formed:
  assumes "\<forall>h \<in> set (w_records (getWeeklySummary env storage userEmail weekStartDate)).
             0 < h_workingHours h \<longrightarrow> truthy (h_punchIn h)"
  shows "w_daysWorked (getWeeklySummary env storage userEmail weekStartDate) =
           length (filter hours_positive
             (w_records (getWeeklySummary env storage userEmail weekStartDate)))"
proof -
  let ?hs = "w_records (getWeeklySummary env storage userEmail weekStartDate)"
  have "filter (\<lambda>h. truthy (h_punchIn h) \<and> 0 < h_workingHours h) ?hs = filter hours_positive ?hs"
    using assms by (intro filter_cong) (auto simp: hours_positive_def)
  moreover have "w_daysWorked (getWeeklySummary env storage userEmail weekStartDate) =
      length (filter (\<lambda>h. truthy (h_punchIn h) \<and> 0 < h_workingHours h) ?hs)"
    by (simp add: getWeeklySummary_def Let_def weekly_loop_eq split: prod.splits)
  ultimately show ?thesis by simp
qed

end
